theory Spec2Isabelle
  imports Main
begin

section \<open>Code points and strings\<close>

text \<open>
  A Python \<open>str\<close> is a sequence of Unicode code points, so a string is modelled as a list
  of natural numbers. The parser hands a handler the current code point \<open>c\<close> as a string
  of length one, and the empty string at the end of the input; the model keeps that shape,
  so \<open>c\<close> is a list of length at most one.
\<close>

type_synonym ustring = "nat list"

definition cps :: "string \<Rightarrow> ustring" where
  "cps s = map of_char s"

text \<open>\<open>c in S\<close> for a set \<open>S\<close> of one-character strings.\<close>

definition char_in :: "ustring \<Rightarrow> nat set \<Rightarrow> bool" where
  "char_in c S = (case c of [x] \<Rightarrow> x \<in> S | _ \<Rightarrow> False)"

definition ASCII_ALPHA :: "nat set" where
  "ASCII_ALPHA = {0x41..0x5A} \<union> {0x61..0x7A}"

definition ASCII_DIGITS :: "nat set" where
  "ASCII_DIGITS = {0x30..0x39}"

definition ASCII_ALPHANUMERIC :: "nat set" where
  "ASCII_ALPHANUMERIC = ASCII_ALPHA \<union> ASCII_DIGITS"

definition is_hex_char :: "nat \<Rightarrow> bool" where
  "is_hex_char x = (x \<in> {0x61..0x66} \<or> x \<in> {0x41..0x46} \<or> x \<in> {0x30..0x39})"

text \<open>\<open>TWO_ASCII_HEX.search(s)\<close>: the pattern is anchored at the start of \<open>s\<close>.\<close>

definition TWO_ASCII_HEX :: "ustring \<Rightarrow> bool" where
  "TWO_ASCII_HEX s = (case s of a # b # _ \<Rightarrow> is_hex_char a \<and> is_hex_char b | _ \<Rightarrow> False)"

text \<open>The ASCII alphanumerics and \<open>! $ & ' ( ) * + , - . / : ; = ? @ _ ~\<close>.\<close>

definition URL_CODEPOINTS :: "nat set" where
  "URL_CODEPOINTS = ASCII_ALPHANUMERIC \<union>
     {0x21, 0x24, 0x26, 0x27, 0x28, 0x29, 0x2A, 0x2B, 0x2C, 0x2D, 0x2E, 0x2F, 0x3A, 0x3B,
      0x3D, 0x3F, 0x40, 0x5F, 0x7E}"

definition SCHEME_CHARS :: "nat set" where
  "SCHEME_CHARS = ASCII_ALPHANUMERIC \<union> set (cps ''+-.'')"

definition NONCHARACTERS :: "nat set" where
  "NONCHARACTERS = {0xfdd0..0xfdef} \<union>
     {0xfffe, 0xffff, 0x1fffe, 0x1ffff, 0x2fffe, 0x2ffff, 0x3fffe, 0x3ffff,
      0x4fffe, 0x4ffff, 0x5fffe, 0x5ffff, 0x6fffe, 0x6ffff, 0x7fffe, 0x7ffff,
      0x8fffe, 0x8ffff, 0x9fffe, 0x9ffff, 0xafffe, 0xaffff, 0xbfffe, 0xbffff,
      0xcfffe, 0xcffff, 0xdfffe, 0xdffff, 0xefffe, 0xeffff, 0xffffe, 0xfffff,
      0x10fffe, 0x10ffff}"

definition SINGLE_DOT_PATH_SEGMENTS :: "ustring set" where
  "SINGLE_DOT_PATH_SEGMENTS = {cps ''.'', cps ''%2e'', cps ''%2E''}"

definition DOUBLE_DOT_PATH_SEGMENTS :: "ustring set" where
  "DOUBLE_DOT_PATH_SEGMENTS =
     {cps ''..'', cps ''.%2e'', cps ''.%2E'', cps ''%2e.'', cps ''%2e%2e'', cps ''%2e%2E'',
      cps ''%2E.'', cps ''%2E%2e'', cps ''%2E%2E''}"

definition C0_PERCENT_ENCODE :: "nat set" where
  "C0_PERCENT_ENCODE = {0..<0x20}"

text \<open>Space, double quote, less-than, greater-than and backtick, then the C0 set.\<close>

definition FRAGMENT_PERCENT_ENCODE :: "nat set" where
  "FRAGMENT_PERCENT_ENCODE = {0x20, 0x22, 0x3C, 0x3E, 0x60} \<union> C0_PERCENT_ENCODE"

definition PATH_PERCENT_ENCODE :: "nat set" where
  "PATH_PERCENT_ENCODE = set (cps ''#?{}'') \<union> FRAGMENT_PERCENT_ENCODE"

text \<open>The characters \<open>/:;=@[\]^|\<close>, then the path set.\<close>

definition USERINFO_PERCENT_ENCODE :: "nat set" where
  "USERINFO_PERCENT_ENCODE =
     {0x2F, 0x3A, 0x3B, 0x3D, 0x40, 0x5B, 0x5C, 0x5D, 0x5E, 0x7C} \<union> PATH_PERCENT_ENCODE"

text \<open>
  NUL, tab, line feed, carriage return, space, and \<open># % / : ? @ [ \ ]\<close>, as the source
  lists them.
\<close>

definition FORBIDDEN_HOST_CODE_POINTS :: "nat set" where
  "FORBIDDEN_HOST_CODE_POINTS =
     {0x00, 0x09, 0x0A, 0x0D, 0x20, 0x23, 0x25, 0x2F, 0x3A, 0x3F, 0x40, 0x5B, 0x5C, 0x5D}"

text \<open>
  \<open>WINDOWS_DRIVE_LETTER\<close> is the pattern \<open>^[a-zA-Z][:|][/\\?#]?\<close>: its last part is
  optional, so the pattern matches (with \<open>match\<close> and with \<open>search\<close> alike) exactly when
  the string starts with a letter followed by a colon or a bar.
\<close>

definition WINDOWS_DRIVE_LETTER :: "ustring \<Rightarrow> bool" where
  "WINDOWS_DRIVE_LETTER s =
     (case s of a # b # _ \<Rightarrow> a \<in> ASCII_ALPHA \<and> (b = 0x3A \<or> b = 0x7C) | _ \<Rightarrow> False)"

text \<open>
  \<open>NORMALIZED_WINDOWS_DRIVE_LETTER\<close> is \<open>^[a-zA-Z][:]$\<close>; in Python \<open>$\<close> also matches
  just before a line feed that ends the string.
\<close>

definition NORMALIZED_WINDOWS_DRIVE_LETTER :: "ustring \<Rightarrow> bool" where
  "NORMALIZED_WINDOWS_DRIVE_LETTER s =
     (case s of
        [a, b] \<Rightarrow> a \<in> ASCII_ALPHA \<and> b = 0x3A
      | [a, b, n] \<Rightarrow> a \<in> ASCII_ALPHA \<and> b = 0x3A \<and> n = 0x0A
      | _ \<Rightarrow> False)"

text \<open>Both delimiter sets hold the empty string (end of input), \<open>/\<close>, \<open>?\<close> and \<open>#\<close>.\<close>

definition AUTHORITY_DELIMITERS :: "ustring set" where
  "AUTHORITY_DELIMITERS = {[], cps ''/'', cps ''?'', cps ''#''}"

definition PATH_DELIMITERS :: "ustring set" where
  "PATH_DELIMITERS = {[], cps ''/'', cps ''?'', cps ''#''}"

text \<open>The dictionary of special schemes; the value is the default port, \<open>None\<close> for file.\<close>

definition SPECIAL_SCHEMES :: "ustring \<rightharpoonup> int option" where
  "SPECIAL_SCHEMES = map_of
     [(cps ''ftp'', Some 21), (cps ''gopher'', Some 70), (cps ''http'', Some 80),
      (cps ''https'', Some 443), (cps ''ws'', Some 80), (cps ''wss'', Some 443),
      (cps ''file'', None)]"

text \<open>\<open>x in SPECIAL_SCHEMES\<close>, where \<open>x\<close> is a string or \<open>None\<close>.\<close>

definition in_SPECIAL_SCHEMES :: "ustring option \<Rightarrow> bool" where
  "in_SPECIAL_SCHEMES x = (case x of None \<Rightarrow> False | Some s \<Rightarrow> s \<in> dom SPECIAL_SCHEMES)"

text \<open>\<open>SPECIAL_SCHEMES.get(x, None)\<close>.\<close>

definition SPECIAL_SCHEMES_get :: "ustring option \<Rightarrow> int option" where
  "SPECIAL_SCHEMES_get x =
     (case x of None \<Rightarrow> None
      | Some s \<Rightarrow> (case SPECIAL_SCHEMES s of None \<Rightarrow> None | Some d \<Rightarrow> d))"

subsection \<open>Python string operations\<close>

text \<open>\<open>str.lower\<close> on ASCII; the source applies it to scheme characters and to the
  ASCII output of the IDNA step.\<close>

definition lower_char :: "nat \<Rightarrow> nat" where
  "lower_char x = (if x \<in> {0x41..0x5A} then x + 0x20 else x)"

definition lower :: "ustring \<Rightarrow> ustring" where
  "lower s = map lower_char s"

definition startswith :: "ustring \<Rightarrow> ustring \<Rightarrow> bool" where
  "startswith s pre = (take (length pre) s = pre)"

definition endswith :: "ustring \<Rightarrow> ustring \<Rightarrow> bool" where
  "endswith s suf = (length suf \<le> length s \<and> drop (length s - length suf) s = suf)"

text \<open>Indexing \<open>s[i]\<close>: a negative index counts from the end, out of range raises.\<close>

definition py_index :: "'a list \<Rightarrow> int \<Rightarrow> 'a option" where
  "py_index xs i =
     (let n = int (length xs); j = (if i < 0 then n + i else i)
      in if 0 \<le> j \<and> j < n then Some (xs ! nat j) else None)"

text \<open>The slice \<open>s[i:]\<close>: a negative start counts from the end and is clipped at 0.\<close>

definition py_slice_from :: "'a list \<Rightarrow> int \<Rightarrow> 'a list" where
  "py_slice_from xs i =
     (let n = int (length xs); j = (if i < 0 then max 0 (n + i) else i)
      in drop (nat j) xs)"

text \<open>Two upper-case hexadecimal digits, as \<open>f"%{x:02X}"\<close> prints a byte after the percent sign.\<close>

definition hex_digit :: "nat \<Rightarrow> nat" where
  "hex_digit d = (if d < 10 then 0x30 + d else 0x41 + (d - 10))"

definition percent_byte :: "nat \<Rightarrow> ustring" where
  "percent_byte b = [0x25, hex_digit (b div 16), hex_digit (b mod 16)]"

text \<open>
  \<open>c.encode("utf-8")\<close> for one code point. A surrogate cannot be encoded: Python raises
  UnicodeEncodeError, here \<open>None\<close>.
\<close>

definition utf8_encode :: "nat \<Rightarrow> nat list option" where
  "utf8_encode x =
     (if x < 0x80 then Some [x]
      else if x < 0x800 then Some [0xC0 + x div 64, 0x80 + x mod 64]
      else if 0xD800 \<le> x \<and> x \<le> 0xDFFF then None
      else if x < 0x10000 then
        Some [0xE0 + x div 4096, 0x80 + (x div 64) mod 64, 0x80 + x mod 64]
      else if x < 0x110000 then
        Some [0xF0 + x div 262144, 0x80 + (x div 4096) mod 64,
              0x80 + (x div 64) mod 64, 0x80 + x mod 64]
      else None)"

fun utf8_encode_str :: "ustring \<Rightarrow> nat list option" where
  "utf8_encode_str [] = Some []"
| "utf8_encode_str (x # xs) =
     (case utf8_encode x of None \<Rightarrow> None
      | Some bs \<Rightarrow> (case utf8_encode_str xs of None \<Rightarrow> None | Some r \<Rightarrow> Some (bs @ r)))"

definition is_cont :: "nat \<Rightarrow> bool" where
  "is_cont b = (0x80 \<le> b \<and> b \<le> 0xBF)"

text \<open>
  \<open>bytes.decode("utf-8")\<close> with the default strict error handling: \<open>None\<close> is
  UnicodeDecodeError.
\<close>

fun utf8_decode :: "nat list \<Rightarrow> ustring option" where
  "utf8_decode [] = Some []"
| "utf8_decode (a # bs) =
     (if a < 0x80 then map_option ((#) a) (utf8_decode bs)
      else if 0xC2 \<le> a \<and> a \<le> 0xDF then
        (case bs of
           b # r \<Rightarrow> if is_cont b
                    then map_option ((#) ((a - 0xC0) * 64 + (b - 0x80))) (utf8_decode r)
                    else None
         | _ \<Rightarrow> None)
      else if 0xE0 \<le> a \<and> a \<le> 0xEF then
        (case bs of
           b # c # r \<Rightarrow>
             if is_cont b \<and> is_cont c \<and> (a = 0xE0 \<longrightarrow> 0xA0 \<le> b) \<and> (a = 0xED \<longrightarrow> b \<le> 0x9F)
             then map_option ((#) ((a - 0xE0) * 4096 + (b - 0x80) * 64 + (c - 0x80)))
                    (utf8_decode r)
             else None
         | _ \<Rightarrow> None)
      else if 0xF0 \<le> a \<and> a \<le> 0xF4 then
        (case bs of
           b # c # d # r \<Rightarrow>
             if is_cont b \<and> is_cont c \<and> is_cont d
                \<and> (a = 0xF0 \<longrightarrow> 0x90 \<le> b) \<and> (a = 0xF4 \<longrightarrow> b \<le> 0x8F)
             then map_option
                    ((#) ((a - 0xF0) * 262144 + (b - 0x80) * 4096 + (c - 0x80) * 64 + (d - 0x80)))
                    (utf8_decode r)
             else None
         | _ \<Rightarrow> None)
      else None)"

text \<open>\<open>str(n)\<close> for an integer.\<close>

fun str_nat :: "nat \<Rightarrow> ustring" where
  "str_nat n = (if n < 10 then [0x30 + n] else str_nat (n div 10) @ [0x30 + n mod 10])"

definition str_int :: "int \<Rightarrow> ustring" where
  "str_int i = (if i < 0 then 0x2D # str_nat (nat (- i)) else str_nat (nat i))"

text \<open>
  \<open>int(s)\<close> on a non-empty string of ASCII digits, which is all the port state ever
  collects; on anything else the model takes the ValueError branch.
\<close>

definition py_int :: "ustring \<Rightarrow> int option" where
  "py_int s =
     (if s \<noteq> [] \<and> set s \<subseteq> ASCII_DIGITS
      then Some (foldl (\<lambda>acc d. 10 * acc + (int d - 0x30)) 0 s)
      else None)"

subsection \<open>The module's functions on code points\<close>

text \<open>
  \<open>percent_encode(c, encode_set)\<close>; \<open>None\<close> is the UnicodeEncodeError of
  \<open>c.encode("utf-8")\<close>.
\<close>

definition percent_encode :: "nat \<Rightarrow> nat set \<Rightarrow> ustring option" where
  "percent_encode x encode_set =
     (if x \<in> encode_set \<or> x > 0x7e
      then map_option (\<lambda>bs. concat (map percent_byte bs)) (utf8_encode x)
      else Some [x])"

definition is_url_codepoint :: "nat \<Rightarrow> bool" where
  "is_url_codepoint x =
     (if x \<in> URL_CODEPOINTS then True
      else 0xa0 \<le> x \<and> x \<le> 0x10fffd
           \<and> \<not> (0xd800 \<le> x \<and> x \<le> 0xdfff)
           \<and> \<not> (0xfdd0 \<le> x \<and> x \<le> 0xfdef)
           \<and> x \<notin> NONCHARACTERS)"

definition is_c0_control_or_space :: "nat \<Rightarrow> bool" where
  "is_c0_control_or_space x = (x = 0x20 \<or> (0 \<le> x \<and> x \<le> 0x1f))"

definition hex_value :: "nat \<Rightarrow> nat" where
  "hex_value x =
     (if x \<in> {0x30..0x39} then x - 0x30
      else if x \<in> {0x41..0x46} then x - 0x41 + 10
      else x - 0x61 + 10)"

text \<open>
  \<open>percent_decode\<close>: the loop over the bytes with its \<open>skip\<close> counter. The test
  \<open>i + 2 >= len(bytes_)\<close> of the source leaves a percent sign alone unless at least two
  bytes follow it.
\<close>

fun percent_decode :: "nat list \<Rightarrow> nat list" where
  "percent_decode [] = []"
| "percent_decode (b # bs) =
     (if b \<noteq> 0x25 then b # percent_decode bs
      else if length bs < 2 \<or> \<not> is_hex_char (bs ! 0) \<or> \<not> is_hex_char (bs ! 1)
      then b # percent_decode bs
      else (hex_value (bs ! 0) * 16 + hex_value (bs ! 1)) # percent_decode (drop 2 bs))"


section \<open>The URL record and its serialisation\<close>

text \<open>
  Python exceptions that the module can raise. \<open>UrlParserError\<close> is the parser's own hard
  failure; \<open>IDNAError\<close> is the error of the IDNA library that \<open>parse_host\<close> catches; the
  others are the built-in errors of operations on \<open>None\<close>, on an empty list, and of
  encoding and decoding, which nothing in the module catches.
\<close>

datatype py_exception =
  UrlParserError | IDNAError | TypeError | IndexError | AttributeError
  | UnicodeEncodeError | UnicodeDecodeError | UnicodeError

text \<open>The class \<open>Url\<close>; its private attribute \<open>_path\<close> is the field \<open>path_list\<close>.\<close>

record Url =
  scheme :: "ustring option"
  hostname :: "ustring option"
  port :: "int option"
  username :: "ustring option"
  password :: "ustring option"
  query :: "ustring option"
  fragment :: "ustring option"
  path_list :: "ustring list"
  cannot_be_base_url :: bool

text \<open>\<open>Url()\<close> with the defaults of the attribute declarations.\<close>

definition Url_init :: Url where
  "Url_init = \<lparr>scheme = None, hostname = None, port = None, username = None, password = None,
     query = None, fragment = None, path_list = [], cannot_be_base_url = False\<rparr>"

text \<open>\<open>bool(s)\<close> for a string or \<open>None\<close>.\<close>

definition truthy :: "ustring option \<Rightarrow> bool" where
  "truthy s = (case s of None \<Rightarrow> False | Some v \<Rightarrow> v \<noteq> [])"

text \<open>How an f-string prints a string or \<open>None\<close>.\<close>

definition fmt :: "ustring option \<Rightarrow> ustring" where
  "fmt s = (case s of None \<Rightarrow> cps ''None'' | Some v \<Rightarrow> v)"

definition includes_credentials :: "Url \<Rightarrow> bool" where
  "includes_credentials u = (truthy (username u) \<or> truthy (password u))"

text \<open>The property \<open>path\<close>; \<open>None\<close> is the IndexError of \<open>_path[0]\<close> on an empty list.\<close>

definition path :: "Url \<Rightarrow> ustring option" where
  "path u =
     (if cannot_be_base_url u
      then (case path_list u of [] \<Rightarrow> None | x # _ \<Rightarrow> Some x)
      else Some (concat (map (\<lambda>x. cps ''/'' @ x) (path_list u))))"

text \<open>The property \<open>href\<close>, the serialiser.\<close>

definition href :: "Url \<Rightarrow> ustring option" where
  "href u =
     (let output1 = fmt (scheme u) @ cps '':'';
          output2 =
            (case hostname u of
               None \<Rightarrow> output1
             | Some h \<Rightarrow>
                 output1 @ cps ''//''
                 @ (if includes_credentials u
                    then (if truthy (username u) then fmt (username u) else [])
                         @ (if truthy (password u) then cps '':'' @ fmt (password u) else [])
                         @ cps ''@''
                    else [])
                 @ h
                 @ (case port u of None \<Rightarrow> [] | Some n \<Rightarrow> cps '':'' @ str_int n));
          output3 =
            (if hostname u = None \<and> scheme u = Some (cps ''file'')
             then output2 @ cps ''//'' else output2)
      in case (if cannot_be_base_url u
               then (case path_list u of [] \<Rightarrow> None | x # _ \<Rightarrow> Some x)
               else path u) of
           None \<Rightarrow> None
         | Some pth \<Rightarrow>
             Some (output3 @ pth
                   @ (case query u of None \<Rightarrow> [] | Some q \<Rightarrow> cps ''?'' @ q)
                   @ (case fragment u of None \<Rightarrow> [] | Some f \<Rightarrow> cps ''#'' @ f)))"

section \<open>The parser object\<close>

datatype ParserState =
  SCHEME_START | SCHEME | NO_SCHEME | SPECIAL_RELATIVE_OR_AUTHORITY | PATH_OR_AUTHORITY
  | RELATIVE | RELATIVE_SLASH | SPECIAL_AUTHORITY_SLASHES | SPECIAL_AUTHORITY_IGNORE_SLASHES
  | AUTHORITY | HOST | HOSTNAME | PORT | FILE | FILE_SLASH | FILE_HOST | PATH_START | PATH
  | CANNOT_BE_BASE_URL | QUERY | FRAGMENT

text \<open>The value of each member of the \<open>IntEnum\<close>.\<close>

fun state_value :: "ParserState \<Rightarrow> nat" where
  "state_value SCHEME_START = 1"
| "state_value SCHEME = 2"
| "state_value NO_SCHEME = 3"
| "state_value SPECIAL_RELATIVE_OR_AUTHORITY = 4"
| "state_value PATH_OR_AUTHORITY = 5"
| "state_value RELATIVE = 6"
| "state_value RELATIVE_SLASH = 7"
| "state_value SPECIAL_AUTHORITY_SLASHES = 8"
| "state_value SPECIAL_AUTHORITY_IGNORE_SLASHES = 9"
| "state_value AUTHORITY = 10"
| "state_value HOST = 11"
| "state_value HOSTNAME = 12"
| "state_value PORT = 13"
| "state_value FILE = 14"
| "state_value FILE_SLASH = 15"
| "state_value FILE_HOST = 16"
| "state_value PATH_START = 17"
| "state_value PATH = 18"
| "state_value CANNOT_BE_BASE_URL = 19"
| "state_value QUERY = 20"
| "state_value FRAGMENT = 21"

text \<open>
  The attributes of \<open>UrlParser\<close>; the private ones drop their leading underscore. The
  encoding is the name of a Python codec.
\<close>

record UrlParser =
  url :: Url
  base :: "Url option"
  encoding :: string
  state_override :: "ParserState option"
  validation_error :: bool
  state :: ParserState
  pointer :: int
  buffer :: ustring
  at_flag :: bool
  square_brace_flag :: bool
  password_token_seen_flag :: bool

text \<open>
  What a call of a state handler does: it returns normally, it raises \<open>_UrlParserReturn\<close>
  (which \<open>parse\<close> catches, keeping the mutated parser), or it raises another exception.
\<close>

datatype 'a outcome = Continue 'a | UrlParserReturn 'a | Raise py_exception

text \<open>
  The libraries the module calls and does not contain: \<open>str(ipaddress.IPv6Address(s))\<close> and
  \<open>str(ipaddress.IPv4Address(s))\<close> (\<open>None\<close> is AddressValueError), \<open>idna.uts46_remap\<close> with
  \<open>std3_rules=False, transitional=False\<close> (\<open>None\<close> is an IDNAError), \<open>ToASCII\<close> of
  \<open>encodings.idna\<close> (\<open>None\<close> is the UnicodeError it raises), and \<open>c.encode(name)\<close> for a
  codec other than utf-8 (\<open>None\<close> is the error it raises).
\<close>

record Env =
  IPv6Address :: "ustring \<Rightarrow> ustring option"
  IPv4Address :: "ustring \<Rightarrow> ustring option"
  uts46_remap :: "ustring \<Rightarrow> ustring option"
  ToASCII :: "ustring \<Rightarrow> nat list option"
  codec_encode :: "string \<Rightarrow> nat \<Rightarrow> nat list option"

text \<open>\<open>UrlParser(url, base, encoding)\<close>.\<close>

definition UrlParser_init :: "Url \<Rightarrow> Url option \<Rightarrow> string \<Rightarrow> UrlParser" where
  "UrlParser_init u b enc =
     \<lparr>url = u, base = b, encoding = enc, state_override = None, validation_error = False,
      state = SCHEME_START, pointer = 0, buffer = [], at_flag = False,
      square_brace_flag = False, password_token_seen_flag = False\<rparr>"

definition reset :: "UrlParser \<Rightarrow> UrlParser" where
  "reset p = p\<lparr>validation_error := False, pointer := 0, buffer := [], at_flag := False,
     square_brace_flag := False, password_token_seen_flag := False\<rparr>"

definition shorten_url_path :: "UrlParser \<Rightarrow> UrlParser" where
  "shorten_url_path p =
     (let path_len = length (path_list (url p)) in
      if path_len = 0 then p
      else if scheme (url p) = Some (cps ''file'') \<and> path_len = 1
              \<and> NORMALIZED_WINDOWS_DRIVE_LETTER (path_list (url p) ! 0)
      then p
      else p\<lparr>url := (url p)\<lparr>path_list := butlast (path_list (url p))\<rparr>\<rparr>)"

subsection \<open>Host parsing\<close>

text \<open>\<open>IDNA_DOTS_REGEX.split(domain)\<close>: split at each of the four dot characters.\<close>

fun split_dots :: "ustring \<Rightarrow> ustring list" where
  "split_dots [] = [[]]"
| "split_dots (x # xs) =
     (if x \<in> {0x2e, 0x3002, 0xff0e, 0xff61} then [] # split_dots xs
      else (case split_dots xs of [] \<Rightarrow> [[x]] | l # ls \<Rightarrow> (x # l) # ls))"

text \<open>\<open>b'.'.join(result)\<close>.\<close>

fun join_dots :: "nat list list \<Rightarrow> nat list" where
  "join_dots [] = []"
| "join_dots [l] = l"
| "join_dots (l # ls) = l @ [0x2e] @ join_dots ls"

text \<open>The loop over the labels of \<open>domain_to_ascii\<close>.\<close>

fun labels_to_ascii :: "Env \<Rightarrow> ustring list \<Rightarrow> py_exception + nat list list" where
  "labels_to_ascii env [] = Inr []"
| "labels_to_ascii env (label # labels) =
     (case ToASCII env label of
        None \<Rightarrow> Inl UnicodeError
      | Some s \<Rightarrow>
          if s \<noteq> [] then
            (case labels_to_ascii env labels of Inl e \<Rightarrow> Inl e | Inr r \<Rightarrow> Inr (s # r))
          else Inl IDNAError)"

text \<open>\<open>domain_to_ascii(domain)\<close>, with \<open>strict=False\<close> as \<open>parse_host\<close> calls it.\<close>

definition domain_to_ascii :: "Env \<Rightarrow> ustring \<Rightarrow> py_exception + nat list" where
  "domain_to_ascii env domain =
     (case uts46_remap env domain of
        None \<Rightarrow> Inl IDNAError
      | Some d \<Rightarrow>
          (let labels = split_dots d in
           if labels = [] \<or> labels = [[]] then Inl IDNAError
           else
             (let trailing_dot = (last labels = []);
                  labels1 = (if trailing_dot then butlast labels else labels)
              in case labels_to_ascii env labels1 of
                   Inl e \<Rightarrow> Inl e
                 | Inr result \<Rightarrow>
                     Inr (join_dots (if trailing_dot then result @ [[]] else result)))))"

fun percent_encode_str :: "ustring \<Rightarrow> nat set \<Rightarrow> ustring option" where
  "percent_encode_str [] S = Some []"
| "percent_encode_str (x # xs) S =
     (case percent_encode x S of
        None \<Rightarrow> None
      | Some e \<Rightarrow> (case percent_encode_str xs S of None \<Rightarrow> None | Some r \<Rightarrow> Some (e @ r)))"

text \<open>
  \<open>parse_host(host, is_not_special)\<close>. The branches that set \<open>validation_error\<close> raise
  right after, and the model keeps no parser once an exception is raised, so the function
  returns only the host or the exception. An IDNAError is caught and turned into
  \<open>UrlParserError\<close>; any other exception of the IDNA step passes through.
\<close>

definition parse_host :: "Env \<Rightarrow> ustring \<Rightarrow> bool \<Rightarrow> py_exception + ustring" where
  "parse_host env host is_not_special =
     (if startswith host (cps ''['') then
        (if \<not> endswith host (cps '']'') then Inl UrlParserError
         else (case IPv6Address env (butlast (tl host)) of
                 None \<Rightarrow> Inl UrlParserError
               | Some a \<Rightarrow> Inr (cps ''['' @ a @ cps '']'')))
      else if is_not_special then
        (if (set host - {0x25}) \<inter> FORBIDDEN_HOST_CODE_POINTS \<noteq> {} then Inl UrlParserError
         else (case percent_encode_str host C0_PERCENT_ENCODE of
                 None \<Rightarrow> Inl UnicodeEncodeError
               | Some r \<Rightarrow> Inr r))
      else
        (case utf8_encode_str host of
           None \<Rightarrow> Inl UnicodeEncodeError
         | Some bytes \<Rightarrow>
             (case utf8_decode (percent_decode bytes) of
                None \<Rightarrow> Inl UnicodeDecodeError
              | Some domain \<Rightarrow>
                  (case domain_to_ascii env domain of
                     Inl e \<Rightarrow> Inl (if e = IDNAError then UrlParserError else e)
                   | Inr bs \<Rightarrow>
                       (case utf8_decode bs of
                          None \<Rightarrow> Inl UnicodeDecodeError
                        | Some a \<Rightarrow>
                            (let ascii_domain = lower a in
                             if set ascii_domain \<inter> FORBIDDEN_HOST_CODE_POINTS \<noteq> {}
                             then Inl UrlParserError
                             else (case IPv4Address env host of
                                     Some q \<Rightarrow> Inr q
                                   | None \<Rightarrow> Inr ascii_domain)))))))"


text \<open>The statement \<open>if cond: self.validation_error = True\<close>.\<close>

definition validation_error_if :: "bool \<Rightarrow> UrlParser \<Rightarrow> UrlParser" where
  "validation_error_if cond p = (if cond then p\<lparr>validation_error := True\<rparr> else p)"

section \<open>The state handlers\<close>

text \<open>
  Each handler takes the parser, the current code point \<open>c\<close> (a string of length one, or
  the empty string at the end of the input) and, where the source uses it, the rest of
  the input after \<open>c\<close>. The backslash is written \<open>[0x5C]\<close>.
\<close>

definition on_scheme_start :: "UrlParser \<Rightarrow> ustring \<Rightarrow> UrlParser outcome" where
  "on_scheme_start p c =
     (if char_in c ASCII_ALPHA then
        Continue (p\<lparr>buffer := buffer p @ lower c, state := SCHEME\<rparr>)
      else if state_override p = None then
        Continue (p\<lparr>state := NO_SCHEME, pointer := pointer p - 1\<rparr>)
      else Raise UrlParserError)"

text \<open>
  In the first test under a state override the source writes a chained comparison,
  \<open>buffer in SPECIAL_SCHEMES != url.scheme in SPECIAL_SCHEMES\<close>, which Python reads as
  \<open>buffer in SPECIAL_SCHEMES and SPECIAL_SCHEMES != url.scheme and url.scheme in SPECIAL_SCHEMES\<close>;
  a dictionary never equals a string or \<open>None\<close>, so the middle part is true.
\<close>

definition on_scheme :: "UrlParser \<Rightarrow> ustring \<Rightarrow> ustring \<Rightarrow> UrlParser outcome" where
  "on_scheme p c remaining =
     (if char_in c SCHEME_CHARS then Continue (p\<lparr>buffer := buffer p @ lower c\<rparr>)
      else if c = cps '':'' then
        (if state_override p \<noteq> None
            \<and> in_SPECIAL_SCHEMES (Some (buffer p)) \<and> in_SPECIAL_SCHEMES (scheme (url p))
         then UrlParserReturn p
         else if state_override p \<noteq> None
            \<and> (includes_credentials (url p) \<or> port (url p) \<noteq> None)
            \<and> buffer p = cps ''file''
         then UrlParserReturn p
         else if state_override p \<noteq> None
            \<and> scheme (url p) = Some (cps ''file'')
            \<and> (hostname (url p) = None \<or> hostname (url p) = Some [])
         then UrlParserReturn p
         else
           (let p1 = p\<lparr>url := (url p)\<lparr>scheme := Some (buffer p)\<rparr>\<rparr> in
            if state_override p1 \<noteq> None then
              UrlParserReturn
                (if in_SPECIAL_SCHEMES (scheme (url p1))
                    \<and> SPECIAL_SCHEMES_get (scheme (url p1)) = port (url p1)
                 then p1\<lparr>url := (url p1)\<lparr>port := None\<rparr>\<rparr> else p1)
            else
              (let p2 = p1\<lparr>buffer := []\<rparr> in
               if scheme (url p2) = Some (cps ''file'') then
                 Continue (validation_error_if (\<not> startswith remaining (cps ''//'')) p2\<lparr>state := FILE\<rparr>)
               else if in_SPECIAL_SCHEMES (scheme (url p2))
                       \<and> (case base p2 of None \<Rightarrow> False
                           | Some b \<Rightarrow> scheme b = scheme (url p2))
               then Continue (p2\<lparr>state := SPECIAL_RELATIVE_OR_AUTHORITY\<rparr>)
               else if in_SPECIAL_SCHEMES (scheme (url p2))
               then Continue (p2\<lparr>state := SPECIAL_AUTHORITY_SLASHES\<rparr>)
               else if startswith remaining (cps ''/'')
               then Continue (p2\<lparr>state := PATH_OR_AUTHORITY, pointer := pointer p2 + 1\<rparr>)
               else Continue (p2\<lparr>url := (url p2)\<lparr>cannot_be_base_url := True,
                                   path_list := path_list (url p2) @ [[]]\<rparr>,
                                 state := CANNOT_BE_BASE_URL\<rparr>))))
      else if state_override p = None then
        Continue (p\<lparr>buffer := [], state := NO_SCHEME, pointer := - 1\<rparr>)
      else Raise UrlParserError)"

definition on_no_scheme :: "UrlParser \<Rightarrow> ustring \<Rightarrow> UrlParser outcome" where
  "on_no_scheme p c =
     (case base p of
        None \<Rightarrow> Raise UrlParserError
      | Some b \<Rightarrow>
          if cannot_be_base_url b \<and> c \<noteq> cps ''#'' then Raise UrlParserError
          else if cannot_be_base_url b \<and> c = cps ''#'' then
            Continue (p\<lparr>url := (url p)\<lparr>scheme := scheme b, path_list := path_list b,
                                query := query b, fragment := Some [],
                                cannot_be_base_url := True\<rparr>,
                       state := FRAGMENT\<rparr>)
          else if scheme b \<noteq> Some (cps ''file'') then
            Continue (p\<lparr>state := RELATIVE, pointer := pointer p - 1\<rparr>)
          else Continue (p\<lparr>state := FILE, pointer := pointer p - 1\<rparr>))"

definition on_special_relative_or_authority ::
  "UrlParser \<Rightarrow> ustring \<Rightarrow> ustring \<Rightarrow> UrlParser outcome" where
  "on_special_relative_or_authority p c remaining =
     (if c = cps ''/'' \<and> startswith remaining (cps ''/'') then
        Continue (p\<lparr>state := SPECIAL_AUTHORITY_IGNORE_SLASHES, pointer := pointer p + 1\<rparr>)
      else Continue (p\<lparr>validation_error := True, state := RELATIVE,
                       pointer := pointer p - 1\<rparr>))"

definition on_path_or_authority :: "UrlParser \<Rightarrow> ustring \<Rightarrow> UrlParser outcome" where
  "on_path_or_authority p c =
     (if c = cps ''/'' then Continue (p\<lparr>state := AUTHORITY\<rparr>)
      else Continue (p\<lparr>state := PATH, pointer := pointer p - 1\<rparr>))"

text \<open>
  Where a handler reads an attribute of \<open>self.base\<close> and the base is \<open>None\<close>, Python raises
  AttributeError.
\<close>

definition on_relative :: "UrlParser \<Rightarrow> ustring \<Rightarrow> UrlParser outcome" where
  "on_relative p c =
     (case base p of
        None \<Rightarrow> Raise AttributeError
      | Some b \<Rightarrow>
          (let p1 = p\<lparr>url := (url p)\<lparr>scheme := scheme b\<rparr>\<rparr> in
           if c = [] then
             Continue (p1\<lparr>url := (url p1)\<lparr>username := username b, password := password b,
                                   hostname := hostname b, port := port b,
                                   path_list := path_list b, query := query b\<rparr>\<rparr>)
           else if c = cps ''/'' then Continue (p1\<lparr>state := RELATIVE_SLASH\<rparr>)
           else if c = cps ''?'' then
             Continue (p1\<lparr>url := (url p1)\<lparr>username := username b, password := password b,
                                   hostname := hostname b, port := port b,
                                   path_list := path_list b, query := Some []\<rparr>,
                         state := QUERY\<rparr>)
           else if c = cps ''#'' then
             Continue (p1\<lparr>url := (url p1)\<lparr>username := username b, password := password b,
                                   hostname := hostname b, port := port b,
                                   path_list := path_list b, query := query b,
                                   fragment := Some []\<rparr>,
                         state := FRAGMENT\<rparr>)
           else if in_SPECIAL_SCHEMES (scheme (url p1)) \<and> c = [0x5C] then
             Continue (p1\<lparr>validation_error := True, state := RELATIVE_SLASH\<rparr>)
           else
             Continue (p1\<lparr>url := (url p1)\<lparr>username := username b, password := password b,
                                   hostname := hostname b, port := port b,
                                   path_list := (if length (path_list b) \<noteq> 0
                                                 then butlast (path_list b)
                                                 else path_list b)\<rparr>,
                         state := PATH, pointer := pointer p1 - 1\<rparr>)))"

definition on_relative_slash :: "UrlParser \<Rightarrow> ustring \<Rightarrow> UrlParser outcome" where
  "on_relative_slash p c =
     (if in_SPECIAL_SCHEMES (scheme (url p)) \<and> (c = cps ''/'' \<or> c = [0x5C]) then
        Continue (validation_error_if (c = [0x5C]) p
                    \<lparr>state := SPECIAL_AUTHORITY_IGNORE_SLASHES\<rparr>)
      else if c = cps ''/'' then Continue (p\<lparr>state := AUTHORITY\<rparr>)
      else
        (case base p of
           None \<Rightarrow> Raise AttributeError
         | Some b \<Rightarrow>
             Continue (p\<lparr>url := (url p)\<lparr>username := username b, password := password b,
                                 hostname := hostname b, port := port b\<rparr>,
                        pointer := pointer p - 1, state := PATH\<rparr>)))"

definition on_special_authority_slashes ::
  "UrlParser \<Rightarrow> ustring \<Rightarrow> ustring \<Rightarrow> UrlParser outcome" where
  "on_special_authority_slashes p c remaining =
     (if c = cps ''/'' \<and> startswith remaining (cps ''/'') then
        Continue (p\<lparr>state := SPECIAL_AUTHORITY_IGNORE_SLASHES, pointer := pointer p + 1\<rparr>)
      else Continue (p\<lparr>validation_error := True, state := SPECIAL_AUTHORITY_IGNORE_SLASHES,
                       pointer := pointer p - 1\<rparr>))"

definition on_special_authority_ignore_slashes ::
  "UrlParser \<Rightarrow> ustring \<Rightarrow> UrlParser outcome" where
  "on_special_authority_ignore_slashes p c =
     (if c \<noteq> cps ''/'' \<and> c \<noteq> [0x5C] then
        Continue (p\<lparr>state := AUTHORITY, pointer := pointer p - 1\<rparr>)
      else Continue (p\<lparr>validation_error := True\<rparr>))"

text \<open>
  The loop of the authority state over the characters of the buffer, which splits them
  into user name and password; \<open>None\<close> is the UnicodeEncodeError of \<open>percent_encode\<close>.
\<close>

fun authority_chars :: "ustring \<Rightarrow> UrlParser \<Rightarrow> UrlParser option" where
  "authority_chars [] p = Some p"
| "authority_chars (ch # chs) p =
     (if \<not> password_token_seen_flag p \<and> ch = 0x3A then
        authority_chars chs (p\<lparr>password_token_seen_flag := True\<rparr>)
      else
        (case percent_encode ch USERINFO_PERCENT_ENCODE of
           None \<Rightarrow> None
         | Some e \<Rightarrow>
             if password_token_seen_flag p then
               authority_chars chs
                 (p\<lparr>url := (url p)\<lparr>password :=
                    Some ((case password (url p) of None \<Rightarrow> [] | Some w \<Rightarrow> w) @ e)\<rparr>\<rparr>)
             else
               authority_chars chs
                 (p\<lparr>url := (url p)\<lparr>username :=
                    Some ((case username (url p) of None \<Rightarrow> [] | Some w \<Rightarrow> w) @ e)\<rparr>\<rparr>)))"

definition on_authority :: "UrlParser \<Rightarrow> ustring \<Rightarrow> UrlParser outcome" where
  "on_authority p c =
     (if c = cps ''@'' then
        (let p1 = p\<lparr>validation_error := True\<rparr>;
             p2 = (if at_flag p1 then p1\<lparr>buffer := cps ''%40'' @ buffer p1\<rparr> else p1);
             p3 = p2\<lparr>at_flag := True\<rparr>
         in case authority_chars (buffer p3) p3 of
              None \<Rightarrow> Raise UnicodeEncodeError
            | Some p4 \<Rightarrow> Continue (p4\<lparr>buffer := []\<rparr>))
      else if c \<in> AUTHORITY_DELIMITERS
              \<or> (in_SPECIAL_SCHEMES (scheme (url p)) \<and> c = [0x5C]) then
        (if at_flag p \<and> buffer p = [] then Raise UrlParserError
         else Continue (p\<lparr>pointer := pointer p - (int (length (buffer p)) + 1),
                          buffer := [], state := HOST\<rparr>))
      else Continue (p\<lparr>buffer := buffer p @ c\<rparr>))"

definition on_host_or_hostname :: "Env \<Rightarrow> UrlParser \<Rightarrow> ustring \<Rightarrow> UrlParser outcome" where
  "on_host_or_hostname env p c =
     (if state_override p \<noteq> None \<and> scheme (url p) = Some (cps ''file'') then
        Continue (p\<lparr>pointer := pointer p - 1, state := FILE_HOST\<rparr>)
      else if c = cps '':'' \<and> \<not> square_brace_flag p then
        (if buffer p = [] then Raise UrlParserError
         else
           (case parse_host env (buffer p) (\<not> in_SPECIAL_SCHEMES (scheme (url p))) of
              Inl e \<Rightarrow> Raise e
            | Inr h \<Rightarrow>
                (let p1 = p\<lparr>url := (url p)\<lparr>hostname := Some h\<rparr>, buffer := [],
                             state := PORT\<rparr>
                 in if state_override p = Some HOSTNAME then UrlParserReturn p1
                    else Continue p1)))
      else if c \<in> PATH_DELIMITERS \<or> (c = [0x5C] \<and> in_SPECIAL_SCHEMES (scheme (url p))) then
        (let p1 = p\<lparr>pointer := pointer p - 1\<rparr> in
         if in_SPECIAL_SCHEMES (scheme (url p1)) \<and> buffer p1 = [] then Raise UrlParserError
         else if state_override p1 \<noteq> None \<and> buffer p1 = []
                 \<and> (includes_credentials (url p1) \<or> port (url p1) \<noteq> None)
         then UrlParserReturn (p1\<lparr>validation_error := True\<rparr>)
         else
           (case parse_host env (buffer p1) (\<not> in_SPECIAL_SCHEMES (scheme (url p1))) of
              Inl e \<Rightarrow> Raise e
            | Inr h \<Rightarrow>
                (let p2 = p1\<lparr>url := (url p1)\<lparr>hostname := Some h\<rparr>, buffer := [],
                              state := PATH_START\<rparr>
                 in if state_override p1 \<noteq> None then UrlParserReturn p2
                    else Continue p2)))
      else
        Continue (p\<lparr>square_brace_flag :=
                      (if c = cps ''['' then True
                       else if c = cps '']'' then False
                       else square_brace_flag p),
                    buffer := buffer p @ c\<rparr>))"

text \<open>The end of the port state's second branch, after the port (if any) is stored.\<close>

definition port_done :: "UrlParser \<Rightarrow> UrlParser outcome" where
  "port_done p =
     (if state_override p \<noteq> None then UrlParserReturn p
      else Continue (p\<lparr>state := PATH_START, pointer := pointer p - 1\<rparr>))"

definition on_port :: "UrlParser \<Rightarrow> ustring \<Rightarrow> UrlParser outcome" where
  "on_port p c =
     (if char_in c ASCII_DIGITS then Continue (p\<lparr>buffer := buffer p @ c\<rparr>)
      else if c \<in> PATH_DELIMITERS
              \<or> (c = [0x5C] \<and> in_SPECIAL_SCHEMES (scheme (url p)))
              \<or> state_override p \<noteq> None then
        (if buffer p \<noteq> [] then
           (case py_int (buffer p) of
              None \<Rightarrow> Raise UrlParserError
            | Some n \<Rightarrow>
                if n > 2 ^ 16 - 1 then Raise UrlParserError
                else port_done
                       (p\<lparr>url := (url p)\<lparr>port :=
                              (if Some n = SPECIAL_SCHEMES_get (scheme (url p))
                               then None else Some n)\<rparr>,
                          buffer := []\<rparr>))
         else port_done p)
      else Raise UrlParserError)"

text \<open>
  The file state. Its first test compares \<open>c\<close>, one code point or the empty string, with
  the two-character string \<open>//\<close>, as the source does.
\<close>

definition on_file :: "UrlParser \<Rightarrow> ustring \<Rightarrow> ustring \<Rightarrow> UrlParser outcome" where
  "on_file p c remaining =
     (let p1 = p\<lparr>url := (url p)\<lparr>scheme := Some (cps ''file'')\<rparr>\<rparr> in
      if c = cps ''//'' \<or> c = [0x5C] then
        Continue (validation_error_if (c = [0x5C]) p1
                    \<lparr>state := FILE_SLASH\<rparr>)
      else
        (case (case base p1 of
                 None \<Rightarrow> None
               | Some b \<Rightarrow> if scheme b = Some (cps ''file'') then Some b else None) of
           Some b \<Rightarrow>
             if c = [] then
               Continue (p1\<lparr>url := (url p1)\<lparr>hostname := hostname b,
                                     path_list := path_list b, query := query b\<rparr>\<rparr>)
             else if c = cps ''?'' then
               Continue (p1\<lparr>url := (url p1)\<lparr>hostname := hostname b,
                                     path_list := path_list b, query := Some []\<rparr>,
                           state := QUERY\<rparr>)
             else if c = cps ''#'' then
               Continue (p1\<lparr>url := (url p1)\<lparr>hostname := hostname b,
                                     path_list := path_list b, query := query b,
                                     fragment := Some []\<rparr>,
                           state := FRAGMENT\<rparr>)
             else if \<not> WINDOWS_DRIVE_LETTER (c @ remaining) then
               Continue (shorten_url_path
                           (p1\<lparr>url := (url p1)\<lparr>hostname := hostname b,
                                        path_list := path_list b\<rparr>\<rparr>))
             else Continue (p1\<lparr>validation_error := True\<rparr>)
         | None \<Rightarrow> Continue (p1\<lparr>state := PATH, pointer := pointer p1 - 1\<rparr>)))"

definition on_file_slash :: "UrlParser \<Rightarrow> ustring \<Rightarrow> ustring \<Rightarrow> UrlParser outcome" where
  "on_file_slash p c remaining =
     (if c = cps ''/'' \<or> c = [0x5C] then
        Continue (validation_error_if (c = [0x5C]) p
                    \<lparr>state := FILE_HOST\<rparr>)
      else
        (let p1 =
           (case base p of
              None \<Rightarrow> p
            | Some b \<Rightarrow>
                if scheme b = Some (cps ''file'') \<and> WINDOWS_DRIVE_LETTER (c @ remaining) then
                  (if length (path_list b) > 0
                      \<and> NORMALIZED_WINDOWS_DRIVE_LETTER (path_list b ! 0)
                   then p\<lparr>url := (url p)\<lparr>path_list := path_list (url p) @ [path_list b ! 0]\<rparr>\<rparr>
                   else p\<lparr>url := (url p)\<lparr>hostname := hostname b\<rparr>\<rparr>)
                else p)
         in Continue (p1\<lparr>state := PATH, pointer := pointer p1 - 1\<rparr>)))"

definition on_file_host :: "Env \<Rightarrow> UrlParser \<Rightarrow> ustring \<Rightarrow> UrlParser outcome" where
  "on_file_host env p c =
     (if c \<in> PATH_DELIMITERS then
        (let p1 = p\<lparr>pointer := pointer p - 1\<rparr> in
         if state_override p1 \<noteq> None \<and> WINDOWS_DRIVE_LETTER (buffer p1) then
           Continue (p1\<lparr>validation_error := True, state := PATH\<rparr>)
         else if buffer p1 = [] then
           (let p2 = p1\<lparr>url := (url p1)\<lparr>hostname := Some []\<rparr>\<rparr> in
            if state_override p2 \<noteq> None then UrlParserReturn p2
            else Continue (p2\<lparr>state := PATH_START\<rparr>))
         else
           (case parse_host env (buffer p1) (\<not> in_SPECIAL_SCHEMES (scheme (url p1))) of
              Inl e \<Rightarrow> Raise e
            | Inr h \<Rightarrow>
                (let p2 = p1\<lparr>url := (url p1)\<lparr>hostname :=
                                (if h = cps ''localhost'' then Some [] else Some h)\<rparr>\<rparr>
                 in if state_override p2 \<noteq> None then UrlParserReturn p2
                    else Continue (p2\<lparr>buffer := [], state := PATH_START\<rparr>))))
      else Continue (p\<lparr>buffer := buffer p @ c\<rparr>))"

definition on_path_start :: "UrlParser \<Rightarrow> ustring \<Rightarrow> UrlParser outcome" where
  "on_path_start p c =
     (if in_SPECIAL_SCHEMES (scheme (url p)) then
        (let p1 = validation_error_if (c = [0x5C]) p;
             p2 = p1\<lparr>state := PATH\<rparr>
         in if c \<noteq> cps ''/'' \<and> c \<noteq> [0x5C]
            then Continue (p2\<lparr>pointer := pointer p2 - 1\<rparr>) else Continue p2)
      else if state_override p = None \<and> c = cps ''?'' then
        Continue (p\<lparr>url := (url p)\<lparr>query := Some []\<rparr>, state := QUERY\<rparr>)
      else if state_override p = None \<and> c = cps ''#'' then
        Continue (p\<lparr>url := (url p)\<lparr>fragment := Some []\<rparr>, state := FRAGMENT\<rparr>)
      else if c \<noteq> [] then
        (let p1 = p\<lparr>state := PATH\<rparr> in
         if c \<noteq> cps ''/'' then Continue (p1\<lparr>pointer := pointer p1 - 1\<rparr>) else Continue p1)
      else Continue p)"


text \<open>
  The loop of the path state that removes leading empty segments of a file URL:
  \<open>while len(path) > 1 and path[0] == "": validation_error = True; path.pop(0)\<close>.
\<close>

fun pop_empty_segments :: "ustring list \<Rightarrow> bool \<Rightarrow> ustring list \<times> bool" where
  "pop_empty_segments (x # y # r) ve =
     (if x = [] then pop_empty_segments (y # r) True else (x # y # r, ve))"
| "pop_empty_segments xs ve = (xs, ve)"

definition on_path :: "UrlParser \<Rightarrow> ustring \<Rightarrow> ustring \<Rightarrow> UrlParser outcome" where
  "on_path p c remaining =
     (let cond = (c = [0x5C] \<and> in_SPECIAL_SCHEMES (scheme (url p))) in
      if c = [] \<or> c = cps ''/'' \<or> cond
         \<or> (state_override p = None \<and> (c = cps ''?'' \<or> c = cps ''#'')) then
        (let p1 = validation_error_if (cond) p;
             p2 =
               (if buffer p1 \<in> DOUBLE_DOT_PATH_SEGMENTS then
                  (let q = shorten_url_path p1 in
                   if \<not> (c = cps ''/'' \<or> cond)
                   then q\<lparr>url := (url q)\<lparr>path_list := path_list (url q) @ [[]]\<rparr>\<rparr>
                   else q)
                else if buffer p1 \<in> SINGLE_DOT_PATH_SEGMENTS \<and> \<not> (c = cps ''/'' \<or> cond) then
                  p1\<lparr>url := (url p1)\<lparr>path_list := path_list (url p1) @ [[]]\<rparr>\<rparr>
                else if buffer p1 \<notin> SINGLE_DOT_PATH_SEGMENTS then
                  (let q =
                     (if scheme (url p1) = Some (cps ''file'')
                         \<and> length (path_list (url p1)) = 0
                         \<and> WINDOWS_DRIVE_LETTER (buffer p1)
                      then
                        (let q1 =
                           (if hostname (url p1) \<noteq> Some [] \<and> hostname (url p1) \<noteq> None
                            then p1\<lparr>validation_error := True,
                                    url := (url p1)\<lparr>hostname := Some []\<rparr>\<rparr>
                            else p1)
                         in q1\<lparr>buffer := take 1 (buffer q1) @ cps '':'' @ drop 2 (buffer q1)\<rparr>)
                      else p1)
                   in q\<lparr>url := (url q)\<lparr>path_list := path_list (url q) @ [buffer q]\<rparr>\<rparr>)
                else p1);
             p3 = p2\<lparr>buffer := []\<rparr>;
             p4 =
               (if scheme (url p3) = Some (cps ''file'') \<and> c \<in> PATH_DELIMITERS then
                  (case pop_empty_segments (path_list (url p3)) (validation_error p3) of
                     (segs, ve) \<Rightarrow>
                       p3\<lparr>validation_error := ve, url := (url p3)\<lparr>path_list := segs\<rparr>\<rparr>)
                else p3)
         in if c = cps ''?'' then
              Continue (p4\<lparr>url := (url p4)\<lparr>query := Some []\<rparr>, state := QUERY\<rparr>)
            else if c = cps ''#'' then
              Continue (p4\<lparr>url := (url p4)\<lparr>fragment := Some []\<rparr>, state := FRAGMENT\<rparr>)
            else Continue p4)
      else
        (case c of
           [x] \<Rightarrow>
             (let p1 = validation_error_if (c \<noteq> cps ''%'' \<and> \<not> is_url_codepoint x) p;
                  p2 = validation_error_if (c = cps ''%'' \<and> \<not> TWO_ASCII_HEX remaining) p1
              in case percent_encode x PATH_PERCENT_ENCODE of
                   None \<Rightarrow> Raise UnicodeEncodeError
                 | Some e \<Rightarrow> Continue (p2\<lparr>buffer := buffer p2 @ e\<rparr>))
         | _ \<Rightarrow> Raise TypeError))"

text \<open>
  \<open>url._path[0] += ...\<close> raises IndexError on an empty path; \<open>ord\<close> raises TypeError on a
  string that is not one character long.
\<close>

definition on_cannot_be_base_url ::
  "UrlParser \<Rightarrow> ustring \<Rightarrow> ustring \<Rightarrow> UrlParser outcome" where
  "on_cannot_be_base_url p c remaining =
     (if c = cps ''?'' then
        Continue (p\<lparr>url := (url p)\<lparr>query := Some []\<rparr>, state := QUERY\<rparr>)
      else if c = cps ''#'' then
        Continue (p\<lparr>url := (url p)\<lparr>fragment := Some []\<rparr>, state := FRAGMENT\<rparr>)
      else
        (case c of
           [] \<Rightarrow> Continue p
         | [x] \<Rightarrow>
             (let p1 = validation_error_if (c \<noteq> cps ''%'' \<and> \<not> is_url_codepoint x) p;
                  p2 = validation_error_if (c = cps ''%'' \<and> \<not> TWO_ASCII_HEX remaining) p1
              in case path_list (url p2) of
                   [] \<Rightarrow> Raise IndexError
                 | seg # segs \<Rightarrow>
                     (case percent_encode x C0_PERCENT_ENCODE of
                        None \<Rightarrow> Raise UnicodeEncodeError
                      | Some e \<Rightarrow>
                          Continue (p2\<lparr>url := (url p2)\<lparr>path_list := (seg @ e) # segs\<rparr>\<rparr>)))
         | _ \<Rightarrow> Raise TypeError))"

text \<open>\<open>c.encode(self.encoding)\<close>.\<close>

definition encode_char :: "Env \<Rightarrow> string \<Rightarrow> nat \<Rightarrow> nat list option" where
  "encode_char env enc x = (if enc = ''utf-8'' then utf8_encode x else codec_encode env enc x)"

text \<open>
  The loop of the query state over the bytes of the encoded code point. \<open>url.query += ...\<close>
  raises TypeError when the query is \<open>None\<close>.
\<close>

fun query_bytes :: "bool \<Rightarrow> nat list \<Rightarrow> Url \<Rightarrow> py_exception + Url" where
  "query_bytes is_special [] u = Inr u"
| "query_bytes is_special (byte # bytes) u =
     (case query u of
        None \<Rightarrow> Inl TypeError
      | Some q \<Rightarrow>
          query_bytes is_special bytes
            (u\<lparr>query := Some (q @
                 (if byte < 0x21 \<or> byte > 0x7e \<or> byte = 0x22 \<or> byte = 0x23
                     \<or> byte = 0x3c \<or> byte = 0x3e \<or> (is_special \<and> byte = 0x27)
                  then percent_byte byte else [byte]))\<rparr>))"

text \<open>
  The first statement of the query state, which sets the encoding back to utf-8 for the
  schemes \<open>ws\<close> and \<open>wss\<close> and for the schemes that are not special.
\<close>

definition query_encoding :: "UrlParser \<Rightarrow> UrlParser" where
  "query_encoding p =
     (if encoding p \<noteq> ''utf-8''
         \<and> (scheme (url p) = Some (cps ''ws'') \<or> scheme (url p) = Some (cps ''wss'')
             \<or> \<not> in_SPECIAL_SCHEMES (scheme (url p)))
      then p\<lparr>encoding := ''utf-8''\<rparr> else p)"

definition on_query :: "Env \<Rightarrow> UrlParser \<Rightarrow> ustring \<Rightarrow> ustring \<Rightarrow> UrlParser outcome" where
  "on_query env p c remaining =
     (let p0 = query_encoding p in
      if state_override p0 = None \<and> c = cps ''#'' then
        Continue (p0\<lparr>url := (url p0)\<lparr>fragment := Some []\<rparr>, state := FRAGMENT\<rparr>)
      else
        (case c of
           [] \<Rightarrow> Continue p0
         | [x] \<Rightarrow>
             (let p1 = validation_error_if (c \<noteq> cps ''%'' \<and> \<not> is_url_codepoint x) p0;
                  p2 = validation_error_if (c = cps ''%'' \<and> \<not> TWO_ASCII_HEX remaining) p1
              in case encode_char env (encoding p2) x of
                   None \<Rightarrow> Raise UnicodeEncodeError
                 | Some bytes \<Rightarrow>
                     if startswith bytes (cps ''&#'') \<and> endswith bytes (cps '';'') then
                       (if \<exists>b \<in> set (butlast (drop 2 bytes)). b \<ge> 0x80
                        then Raise UnicodeDecodeError
                        else
                          (case query (url p2) of
                             None \<Rightarrow> Raise TypeError
                           | Some q \<Rightarrow>
                               Continue (p2\<lparr>url := (url p2)\<lparr>query :=
                                  Some (q @ cps ''%26%23'' @ butlast (drop 2 bytes)
                                          @ cps ''%3B'')\<rparr>\<rparr>)))
                     else
                       (case query_bytes (in_SPECIAL_SCHEMES (scheme (url p2))) bytes (url p2) of
                          Inl e \<Rightarrow> Raise e
                        | Inr u \<Rightarrow> Continue (p2\<lparr>url := u\<rparr>)))
         | _ \<Rightarrow> Raise TypeError))"

text \<open>\<open>url.fragment += ...\<close> raises TypeError when the fragment is \<open>None\<close>.\<close>

definition on_fragment :: "UrlParser \<Rightarrow> ustring \<Rightarrow> ustring \<Rightarrow> UrlParser outcome" where
  "on_fragment p c remaining =
     (if c = [] then Continue p
      else if c = [0x00] then Continue (p\<lparr>validation_error := True\<rparr>)
      else
        (case c of
           [x] \<Rightarrow>
             (let p1 = validation_error_if (c \<noteq> cps ''%'' \<and> is_url_codepoint x) p;
                  p2 = validation_error_if (c = cps ''%'' \<and> \<not> TWO_ASCII_HEX remaining) p1
              in case percent_encode x FRAGMENT_PERCENT_ENCODE of
                   None \<Rightarrow> Raise UnicodeEncodeError
                 | Some e \<Rightarrow>
                     (case fragment (url p2) of
                        None \<Rightarrow> Raise TypeError
                      | Some f \<Rightarrow> Continue (p2\<lparr>url := (url p2)\<lparr>fragment := Some (f @ e)\<rparr>\<rparr>)))
         | _ \<Rightarrow> Raise TypeError))"

section \<open>The driver\<close>

text \<open>The dictionary \<open>_state_handlers\<close>, applied to the current state.\<close>

definition state_handler ::
  "Env \<Rightarrow> UrlParser \<Rightarrow> ustring \<Rightarrow> ustring \<Rightarrow> UrlParser outcome" where
  "state_handler env p c remaining =
     (case state p of
        SCHEME_START \<Rightarrow> on_scheme_start p c
      | SCHEME \<Rightarrow> on_scheme p c remaining
      | NO_SCHEME \<Rightarrow> on_no_scheme p c
      | SPECIAL_RELATIVE_OR_AUTHORITY \<Rightarrow> on_special_relative_or_authority p c remaining
      | PATH_OR_AUTHORITY \<Rightarrow> on_path_or_authority p c
      | RELATIVE \<Rightarrow> on_relative p c
      | RELATIVE_SLASH \<Rightarrow> on_relative_slash p c
      | SPECIAL_AUTHORITY_SLASHES \<Rightarrow> on_special_authority_slashes p c remaining
      | SPECIAL_AUTHORITY_IGNORE_SLASHES \<Rightarrow> on_special_authority_ignore_slashes p c
      | AUTHORITY \<Rightarrow> on_authority p c
      | HOST \<Rightarrow> on_host_or_hostname env p c
      | HOSTNAME \<Rightarrow> on_host_or_hostname env p c
      | PORT \<Rightarrow> on_port p c
      | FILE \<Rightarrow> on_file p c remaining
      | FILE_SLASH \<Rightarrow> on_file_slash p c remaining
      | FILE_HOST \<Rightarrow> on_file_host env p c
      | PATH_START \<Rightarrow> on_path_start p c
      | PATH \<Rightarrow> on_path p c remaining
      | CANNOT_BE_BASE_URL \<Rightarrow> on_cannot_be_base_url p c remaining
      | QUERY \<Rightarrow> on_query env p c remaining
      | FRAGMENT \<Rightarrow> on_fragment p c remaining)"

text \<open>A handler call followed by \<open>self._pointer += 1\<close>.\<close>

definition handle_and_advance ::
  "Env \<Rightarrow> UrlParser \<Rightarrow> ustring \<Rightarrow> ustring \<Rightarrow> UrlParser outcome" where
  "handle_and_advance env p c remaining =
     (case state_handler env p c remaining of
        Continue p1 \<Rightarrow> Continue (p1\<lparr>pointer := pointer p1 + 1\<rparr>)
      | r \<Rightarrow> r)"

text \<open>
  The inner loop of \<open>parse\<close>, \<open>while self._pointer == end_pointer\<close>, which hands the end
  of the input to the handlers. The result \<open>None\<close> stands for a loop that never ends.
\<close>

partial_function (option) eof_loop :: "Env \<Rightarrow> int \<Rightarrow> UrlParser \<Rightarrow> UrlParser outcome option"
  where
  "eof_loop env end_pointer p =
     (if pointer p = end_pointer then
        (case handle_and_advance env p [] [] of
           Continue p1 \<Rightarrow> eof_loop env end_pointer p1
         | r \<Rightarrow> Some r)
      else Some (Continue p))"

text \<open>
  One pass through the body of the outer loop before its inner loop: the handler call on
  \<open>data[pointer]\<close> when the input is not empty.
\<close>

definition char_step :: "Env \<Rightarrow> ustring \<Rightarrow> UrlParser \<Rightarrow> UrlParser outcome" where
  "char_step env data p =
     (if int (length data) > 0 then
        (case py_index data (pointer p) of
           None \<Rightarrow> Raise IndexError
         | Some x \<Rightarrow> handle_and_advance env p [x] (py_slice_from data (pointer p + 1)))
      else Continue p)"

text \<open>The outer loop of \<open>parse\<close>.\<close>

partial_function (option) main_loop :: "Env \<Rightarrow> ustring \<Rightarrow> UrlParser \<Rightarrow> UrlParser outcome option"
  where
  "main_loop env data p =
     (if pointer p < int (length data) \<or> (int (length data) = 0 \<and> pointer p = 0) then
        (case char_step env data p of
           Continue p1 \<Rightarrow>
             (case eof_loop env (int (length data)) p1 of
                None \<Rightarrow> None
              | Some (Continue p2) \<Rightarrow> main_loop env data p2
              | Some r \<Rightarrow> Some r)
         | r \<Rightarrow> Some r)
      else Some (Continue p))"

declare eof_loop.simps [code]
declare main_loop.simps [code]

text \<open>The two loops that strip C0 controls and spaces from both ends of the input.\<close>

fun strip_leading :: "ustring \<Rightarrow> bool \<Rightarrow> ustring \<times> bool" where
  "strip_leading [] ve = ([], ve)"
| "strip_leading (x # xs) ve =
     (if is_c0_control_or_space x then strip_leading xs True else (x # xs, ve))"

function strip_trailing :: "ustring \<Rightarrow> bool \<Rightarrow> ustring \<times> bool" where
  "strip_trailing d ve =
     (if d \<noteq> [] \<and> is_c0_control_or_space (last d) then strip_trailing (butlast d) True
      else (d, ve))"
  by pat_completeness auto
termination
  by (relation "measure (\<lambda>(d, ve). length d)") auto

text \<open>\<open>data.replace("\t", "").replace("\n", "").replace("\r", "")\<close>.\<close>

definition remove_tab_newline :: "ustring \<Rightarrow> ustring" where
  "remove_tab_newline d = filter (\<lambda>x. x \<noteq> 0x0D) (filter (\<lambda>x. x \<noteq> 0x0A) (filter (\<lambda>x. x \<noteq> 0x09) d))"

text \<open>
  The part of \<open>parse\<close> before its loop: the parser with its state, encoding and
  validation flag set, and the input as the loop reads it.
\<close>

definition prepare ::
  "UrlParser \<Rightarrow> ustring \<Rightarrow> string option \<Rightarrow> ParserState option \<Rightarrow> UrlParser \<times> ustring" where
  "prepare self data0 enc so =
     (let p0 = (reset self)\<lparr>state_override := so\<rparr>;
          p1 = p0\<lparr>state := (case so of None \<Rightarrow> SCHEME_START | Some s \<Rightarrow> s)\<rparr>;
          p2 = p1\<lparr>encoding := (case enc of None \<Rightarrow> ''utf-8'' | Some e \<Rightarrow> e)\<rparr>
      in case strip_leading data0 (validation_error p2) of
           (data1, ve1) \<Rightarrow>
             (case strip_trailing data1 ve1 of
                (data2, ve2) \<Rightarrow>
                  (let before_len = length data2;
                       data3 = remove_tab_newline data2
                   in (p2\<lparr>validation_error := (if length data3 < before_len then True else ve2)\<rparr>,
                       data3))))"

text \<open>
  The method \<open>parse(data, encoding, state_override)\<close>. It returns the parser after the
  call, which holds the URL (the method's return value) and the validation flag, or the
  exception that left the method; \<open>None\<close> is a call that never returns.
\<close>

definition parse ::
  "Env \<Rightarrow> UrlParser \<Rightarrow> ustring \<Rightarrow> string option \<Rightarrow> ParserState option
     \<Rightarrow> (py_exception + UrlParser) option" where
  "parse env self data0 enc so =
     (case prepare self data0 enc so of
        (p, data) \<Rightarrow>
          (case main_loop env data p of
             None \<Rightarrow> None
           | Some (Continue p1) \<Rightarrow> Some (Inr p1)
           | Some (UrlParserReturn p1) \<Rightarrow> Some (Inr p1)
           | Some (Raise e) \<Rightarrow> Some (Inl e)))"

text \<open>
  Parsing into a fresh URL record with a fresh parser, as the specification's
  \<open>parse(input, base, encoding)\<close> does.
\<close>

definition parse_url ::
  "Env \<Rightarrow> ustring \<Rightarrow> Url option \<Rightarrow> string option \<Rightarrow> (py_exception + UrlParser) option" where
  "parse_url env data b enc = parse env (UrlParser_init Url_init b ''utf-8'') data enc None"


section \<open>A sample environment\<close>

text \<open>
  \<open>str(ipaddress.IPv4Address(s))\<close> of the standard library, for a string: exactly four
  parts between dots, each one to three ASCII digits with no leading zero and a value of
  at most 255. What it prints is the dotted quad again.
\<close>

fun split_char :: "nat \<Rightarrow> ustring \<Rightarrow> ustring list" where
  "split_char sep [] = [[]]"
| "split_char sep (x # xs) =
     (if x = sep then [] # split_char sep xs
      else (case split_char sep xs of [] \<Rightarrow> [[x]] | l # ls \<Rightarrow> (x # l) # ls))"

definition parse_octet :: "ustring \<Rightarrow> nat option" where
  "parse_octet s =
     (if s = [] then None
      else if \<not> set s \<subseteq> ASCII_DIGITS then None
      else if length s > 3 then None
      else if s \<noteq> cps ''0'' \<and> hd s = 0x30 then None
      else (case py_int s of
              None \<Rightarrow> None
            | Some n \<Rightarrow> if n > 255 then None else Some (nat n)))"

fun parse_octets :: "ustring list \<Rightarrow> nat list option" where
  "parse_octets [] = Some []"
| "parse_octets (s # ss) =
     (case parse_octet s of
        None \<Rightarrow> None
      | Some n \<Rightarrow> (case parse_octets ss of None \<Rightarrow> None | Some ns \<Rightarrow> Some (n # ns)))"

definition py_IPv4Address :: "ustring \<Rightarrow> ustring option" where
  "py_IPv4Address s =
     (let octets = split_char 0x2E s in
      if length octets \<noteq> 4 then None
      else (case parse_octets octets of
              None \<Rightarrow> None
            | Some ns \<Rightarrow> Some (join_dots (map str_nat ns))))"

text \<open>
  An environment to run the parser on concrete ASCII input. Its IPv4 parser is the one
  above. On ASCII text \<open>uts46_remap\<close> only lower-cases, and \<open>ToASCII\<close> returns a label of 1
  to 63 characters unchanged. IPv6 literals, non-ASCII domains and codecs other than utf-8
  need the libraries' own tables: the sample rejects them, and no statement below runs it
  on such input.
\<close>

definition sample_env :: Env where
  "sample_env =
     \<lparr>IPv6Address = (\<lambda>s. None),
      IPv4Address = py_IPv4Address,
      uts46_remap = (\<lambda>s. if \<forall>x \<in> set s. x < 0x80 then Some (lower s) else None),
      ToASCII = (\<lambda>l. if (\<forall>x \<in> set l. x < 0x80) \<and> 0 < length l \<and> length l < 64
                       then Some l else None),
      codec_encode = (\<lambda>name x. None)\<rparr>"

text \<open>
  The shape of a string that an IPv4 parser for dotted decimal can accept at all: exactly
  four parts between dots, each a non-empty string of ASCII digits.
\<close>

definition four_decimal_parts :: "ustring \<Rightarrow> bool" where
  "four_decimal_parts s =
     (length (split_char 0x2E s) = 4
      \<and> (\<forall>part \<in> set (split_char 0x2E s). part \<noteq> [] \<and> set part \<subseteq> ASCII_DIGITS))"

section \<open>Parts of handlers and notions used in the proofs\<close>

text \<open>
  The part of the path state that turns a first segment of a file URL that is a Windows
  drive letter into its normal form and clears the host.
\<close>

definition path_drive_letter :: "UrlParser \<Rightarrow> UrlParser" where
  "path_drive_letter p1 =
     (if scheme (url p1) = Some (cps ''file'')
         \<and> length (path_list (url p1)) = 0
         \<and> WINDOWS_DRIVE_LETTER (buffer p1)
      then
        (let q1 =
           (if hostname (url p1) \<noteq> Some [] \<and> hostname (url p1) \<noteq> None
            then p1\<lparr>validation_error := True,
                    url := (url p1)\<lparr>hostname := Some []\<rparr>\<rparr>
            else p1)
         in q1\<lparr>buffer := take 1 (buffer q1) @ cps '':'' @ drop 2 (buffer q1)\<rparr>)
      else p1)"

text \<open>
  The part of the path state that looks at the buffer when a segment ends: a double-dot
  segment shortens the path, a single-dot segment adds nothing but a last empty segment,
  any other buffer is appended. The flag says whether the segment ended with a slash.
\<close>

definition path_segment :: "UrlParser \<Rightarrow> bool \<Rightarrow> UrlParser" where
  "path_segment p1 slash =
     (if buffer p1 \<in> DOUBLE_DOT_PATH_SEGMENTS then
        (let q = shorten_url_path p1 in
         if \<not> slash
         then q\<lparr>url := (url q)\<lparr>path_list := path_list (url q) @ [[]]\<rparr>\<rparr>
         else q)
      else if buffer p1 \<in> SINGLE_DOT_PATH_SEGMENTS \<and> \<not> slash then
        p1\<lparr>url := (url p1)\<lparr>path_list := path_list (url p1) @ [[]]\<rparr>\<rparr>
      else if buffer p1 \<notin> SINGLE_DOT_PATH_SEGMENTS then
        (let q = path_drive_letter p1
         in q\<lparr>url := (url q)\<lparr>path_list := path_list (url q) @ [buffer q]\<rparr>\<rparr>)
      else p1)"

text \<open>
  The part of the path state that drops the leading empty segments of a file URL.
\<close>

definition path_pop_empty :: "UrlParser \<Rightarrow> ustring \<Rightarrow> UrlParser" where
  "path_pop_empty p3 c =
     (if scheme (url p3) = Some (cps ''file'') \<and> c \<in> PATH_DELIMITERS then
        (case pop_empty_segments (path_list (url p3)) (validation_error p3) of
           (segs, ve) \<Rightarrow>
             p3\<lparr>validation_error := ve, url := (url p3)\<lparr>path_list := segs\<rparr>\<rparr>)
      else p3)"

text \<open>
  What the path state does to the parser when a segment ends, before it looks for a query
  or a fragment: the three parts above, one after the other.
\<close>

definition path_end :: "UrlParser \<Rightarrow> ustring \<Rightarrow> UrlParser" where
  "path_end p c =
     path_pop_empty
       ((path_segment
           (validation_error_if (c = [0x5C] \<and> in_SPECIAL_SCHEMES (scheme (url p))) p)
           (c = cps ''/'' \<or> (c = [0x5C] \<and> in_SPECIAL_SCHEMES (scheme (url p)))))
          \<lparr>buffer := []\<rparr>) c"

text \<open>
  A property of the parser that a handler hands on when it returns normally.
\<close>

definition continues :: "(UrlParser \<Rightarrow> bool) \<Rightarrow> UrlParser outcome \<Rightarrow> bool" where
  "continues I r = (case r of Continue q \<Rightarrow> I q | _ \<Rightarrow> True)"



text \<open>
  A property of the parser that a handler leaves behind when it returns normally or
  with \<open>_UrlParserReturn\<close>.
\<close>

definition holds :: "(UrlParser \<Rightarrow> bool) \<Rightarrow> UrlParser outcome \<Rightarrow> bool" where
  "holds I r = (case r of Continue q \<Rightarrow> I q | UrlParserReturn q \<Rightarrow> I q | Raise e \<Rightarrow> True)"

text \<open>
  The URL is a file URL whose first path segment is the normalized Windows drive letter
  \<open>d\<close>.
\<close>

definition has_drive :: "ustring \<Rightarrow> Url \<Rightarrow> bool" where
  "has_drive d u =
     (scheme u = Some (cps ''file'') \<and> NORMALIZED_WINDOWS_DRIVE_LETTER d
      \<and> path_list u \<noteq> [] \<and> hd (path_list u) = d)"

text \<open>
  The states from the file slash state on in which the path is built: file slash, file
  host, path start, path, query and fragment.
\<close>

definition in_path_states :: "UrlParser \<Rightarrow> bool" where
  "in_path_states p = (15 \<le> state_value (state p) \<and> state p \<noteq> CANNOT_BE_BASE_URL)"

text \<open>
  The parser is in one of those states and its URL has the drive letter.
\<close>

definition drive_kept :: "ustring \<Rightarrow> UrlParser \<Rightarrow> bool" where
  "drive_kept d p = (in_path_states p \<and> has_drive d (url p))"

section \<open>Properties\<close>

lemmas handler_defs = on_scheme_start_def on_scheme_def on_no_scheme_def
  on_special_relative_or_authority_def on_path_or_authority_def on_relative_def
  on_relative_slash_def on_special_authority_slashes_def on_special_authority_ignore_slashes_def
  on_authority_def on_host_or_hostname_def on_port_def port_done_def on_file_def on_file_slash_def
  on_file_host_def on_path_start_def on_path_def on_cannot_be_base_url_def on_query_def
  on_fragment_def

lemmas set_defs = ASCII_ALPHA_def ASCII_DIGITS_def ASCII_ALPHANUMERIC_def URL_CODEPOINTS_def
  SCHEME_CHARS_def NONCHARACTERS_def SINGLE_DOT_PATH_SEGMENTS_def DOUBLE_DOT_PATH_SEGMENTS_def
  C0_PERCENT_ENCODE_def FRAGMENT_PERCENT_ENCODE_def PATH_PERCENT_ENCODE_def
  USERINFO_PERCENT_ENCODE_def FORBIDDEN_HOST_CODE_POINTS_def AUTHORITY_DELIMITERS_def
  PATH_DELIMITERS_def SPECIAL_SCHEMES_def in_SPECIAL_SCHEMES_def SPECIAL_SCHEMES_get_def

lemmas util_defs = cps_def char_in_def is_hex_char_def TWO_ASCII_HEX_def WINDOWS_DRIVE_LETTER_def
  NORMALIZED_WINDOWS_DRIVE_LETTER_def lower_char_def lower_def startswith_def endswith_def
  py_index_def py_slice_from_def hex_digit_def percent_byte_def utf8_encode_def percent_encode_def
  is_url_codepoint_def is_c0_control_or_space_def truthy_def includes_credentials_def
  shorten_url_path_def encode_char_def validation_error_if_def query_encoding_def

lemmas driver_defs = state_handler_def handle_and_advance_def char_step_def prepare_def parse_def
  parse_url_def UrlParser_init_def Url_init_def reset_def remove_tab_newline_def


subsection \<open>The fragment state\<close>

text \<open>
  Claim C5, as the code has it. In the fragment state the end of the input changes
  nothing; a NUL code point sets \<open>validation_error\<close> and is dropped, nothing is appended
  for it; every other code point is appended to the fragment percent-encoded with the
  fragment encode set, and a percent sign that two hexadecimal digits do not follow sets
  \<open>validation_error\<close>.
\<close>

theorem fragment_state_appends:
  assumes "fragment (url p) = Some f"
  shows "on_fragment p [] remaining = Continue p
       \<and> on_fragment p [0x00] remaining = Continue (p\<lparr>validation_error := True\<rparr>)
       \<and> (x \<noteq> 0x00 \<longrightarrow> percent_encode x FRAGMENT_PERCENT_ENCODE = Some e \<longrightarrow>
            (\<exists>q. on_fragment p [x] remaining = Continue q
                 \<and> url q = (url p)\<lparr>fragment := Some (f @ e)\<rparr>
                 \<and> (x = 0x25 \<and> \<not> TWO_ASCII_HEX remaining \<longrightarrow> validation_error q)))"
  using assms by (auto simp: on_fragment_def Let_def cps_def validation_error_if_def)

text \<open>
  Claim C5, witness: with the fragment \<open>a\<close> collected so far, the end of the input leaves
  the parser as it is and a space is appended as \<open>%20\<close>.
\<close>

theorem fragment_state_appends_witness:
  "on_fragment (UrlParser_init (Url_init\<lparr>fragment := Some (cps ''a'')\<rparr>) None ''utf-8'') [] [] =
     Continue (UrlParser_init (Url_init\<lparr>fragment := Some (cps ''a'')\<rparr>) None ''utf-8'')
   \<and> (\<exists>q. on_fragment (UrlParser_init (Url_init\<lparr>fragment := Some (cps ''a'')\<rparr>) None ''utf-8'')
             (cps '' '') [] = Continue q
          \<and> fragment (url q) = Some (cps ''a%20''))"
  using fragment_state_appends [of "UrlParser_init (Url_init\<lparr>fragment := Some (cps ''a'')\<rparr>) None ''utf-8''"
      "cps ''a''" "[]" "0x20" "cps ''%20''"]
  by (auto simp: UrlParser_init_def Url_init_def set_defs util_defs)

text \<open>
  Claim C5, counterexample: a NUL code point in the fragment state is not appended. With
  the fragment \<open>a\<close> the handler returns the parser with only the validation flag set, the
  fragment is still \<open>a\<close>, although the fragment encode set would encode NUL as \<open>%00\<close>.
\<close>

theorem fragment_nul_dropped_counterexample:
  "on_fragment (UrlParser_init (Url_init\<lparr>fragment := Some (cps ''a'')\<rparr>) None ''utf-8'') [0x00] []
     = Continue ((UrlParser_init (Url_init\<lparr>fragment := Some (cps ''a'')\<rparr>) None ''utf-8'')
                   \<lparr>validation_error := True\<rparr>)
   \<and> percent_encode 0x00 FRAGMENT_PERCENT_ENCODE = Some (cps ''%00'')"
  by (simp add: on_fragment_def set_defs util_defs)


subsection \<open>Host parsing\<close>

text \<open>
  Claim C3, as the code has it. The set of forbidden host code points is the one the
  source lists, and the bar \<open>|\<close> (0x7C) is not in it. For a host that does not start with
  \<open>[\<close>: parsed as an opaque host it fails with \<open>UrlParserError\<close> exactly when it holds a
  forbidden code point other than the percent sign; parsed as the host of a special
  scheme it fails with \<open>UrlParserError\<close> when the lower-cased ASCII form that the IDNA step
  returns holds a forbidden code point.
\<close>

theorem forbidden_host_code_points:
  assumes "\<not> startswith host (cps ''['')"
  shows "0x7C \<notin> FORBIDDEN_HOST_CODE_POINTS
       \<and> ((\<exists>x \<in> set host. x \<noteq> 0x25 \<and> x \<in> FORBIDDEN_HOST_CODE_POINTS)
            \<longleftrightarrow> parse_host env host True = Inl UrlParserError)
       \<and> (\<forall>bytes d bs a.
             utf8_encode_str host = Some bytes \<longrightarrow>
             utf8_decode (percent_decode bytes) = Some d \<longrightarrow>
             domain_to_ascii env d = Inr bs \<longrightarrow>
             utf8_decode bs = Some a \<longrightarrow>
             (\<exists>x \<in> set (lower a). x \<in> FORBIDDEN_HOST_CODE_POINTS) \<longrightarrow>
             parse_host env host False = Inl UrlParserError)"
proof (intro conjI)
  show "0x7C \<notin> FORBIDDEN_HOST_CODE_POINTS"
    by (simp add: FORBIDDEN_HOST_CODE_POINTS_def)
  show "(\<exists>x \<in> set host. x \<noteq> 0x25 \<and> x \<in> FORBIDDEN_HOST_CODE_POINTS)
          \<longleftrightarrow> parse_host env host True = Inl UrlParserError"
    using assms by (auto simp: parse_host_def split: option.splits)
  show "\<forall>bytes d bs a.
             utf8_encode_str host = Some bytes \<longrightarrow>
             utf8_decode (percent_decode bytes) = Some d \<longrightarrow>
             domain_to_ascii env d = Inr bs \<longrightarrow>
             utf8_decode bs = Some a \<longrightarrow>
             (\<exists>x \<in> set (lower a). x \<in> FORBIDDEN_HOST_CODE_POINTS) \<longrightarrow>
             parse_host env host False = Inl UrlParserError"
    using assms by (auto simp: parse_host_def Let_def)
qed

text \<open>
  Claim C3, witness: the host \<open>a b\<close> holds a space; both ways of parsing it fail.
\<close>

theorem forbidden_host_code_points_witness:
  "\<not> startswith (cps ''a b'') (cps ''['')
   \<and> parse_host sample_env (cps ''a b'') True = Inl UrlParserError
   \<and> parse_host sample_env (cps ''a b'') False = Inl UrlParserError"
proof -
  have a: "\<not> startswith (cps ''a b'') (cps ''['')"
    by (simp add: util_defs)
  have b: "\<exists>x \<in> set (cps ''a b''). x \<noteq> 0x25 \<and> x \<in> FORBIDDEN_HOST_CODE_POINTS"
    by (simp add: cps_def FORBIDDEN_HOST_CODE_POINTS_def)
  have c: "utf8_encode_str (cps ''a b'') = Some (cps ''a b'')"
    by (simp add: util_defs)
  have d: "utf8_decode (percent_decode (cps ''a b'')) = Some (cps ''a b'')"
    by (simp add: util_defs)
  have e: "domain_to_ascii sample_env (cps ''a b'') = Inr (cps ''a b'')"
    by (simp add: domain_to_ascii_def sample_env_def util_defs)
  have f: "\<exists>x \<in> set (lower (cps ''a b'')). x \<in> FORBIDDEN_HOST_CODE_POINTS"
    by (simp add: util_defs FORBIDDEN_HOST_CODE_POINTS_def)
  have g: "utf8_decode (cps ''a b'') = Some (cps ''a b'')"
    by (simp add: util_defs)
  note T = forbidden_host_code_points [OF a, of sample_env]
  from T b have p1: "parse_host sample_env (cps ''a b'') True = Inl UrlParserError"
    by blast
  from T c d e g f have p2: "parse_host sample_env (cps ''a b'') False = Inl UrlParserError"
    by blast
  from a p1 p2 show ?thesis by simp
qed

text \<open>
  Claim C3, counterexample: the host \<open>a|b\<close> holds a bar and is accepted, as an opaque host
  and as the host of a special scheme alike.
\<close>

theorem bar_not_forbidden_counterexample:
  "parse_host sample_env (cps ''a|b'') True = Inr (cps ''a|b'')
   \<and> parse_host sample_env (cps ''a|b'') False = Inr (cps ''a|b'')"
  by (simp add: parse_host_def sample_env_def py_IPv4Address_def domain_to_ascii_def
      parse_octet_def py_int_def is_cont_def set_defs util_defs Let_def)

text \<open>
  The model of the library's IPv4 parser accepts only strings of that shape.
\<close>

lemma parse_octets_shape:
  "parse_octets ss = Some ns \<Longrightarrow> \<forall>s \<in> set ss. s \<noteq> [] \<and> set s \<subseteq> ASCII_DIGITS"
proof (induction ss arbitrary: ns)
  case Nil
  then show ?case by simp
next
  case (Cons s ss)
  from Cons.prems obtain n ms where n: "parse_octet s = Some n" and ms: "parse_octets ss = Some ms"
    by (auto split: option.splits)
  from n have "s \<noteq> [] \<and> set s \<subseteq> ASCII_DIGITS"
    by (auto simp: parse_octet_def split: if_splits)
  with Cons.IH [OF ms] show ?case by simp
qed

lemma py_IPv4Address_shape:
  "py_IPv4Address s = Some q \<Longrightarrow> four_decimal_parts s"
  unfolding py_IPv4Address_def four_decimal_parts_def Let_def
  by (auto split: if_splits option.splits dest: parse_octets_shape)

text \<open>
  Claim C4, as the code has it. \<open>parse_host\<close> does not split the host into parts or
  convert numbers itself: for the host of a special scheme that passes the IDNA step and
  the test for forbidden code points, it hands the host as it was written to the
  library's IPv4 parser and returns the dotted quad that the library prints when it
  accepts, otherwise the lower-cased ASCII domain. So with a library that accepts only four
  non-empty parts of decimal digits, every host of another shape (a part with a \<open>0x\<close>
  prefix, fewer or more than four parts) comes back as the lower-cased ASCII domain.
\<close>

theorem ipv4_recognition:
  assumes "\<not> startswith host (cps ''['')"
    and "utf8_encode_str host = Some bytes"
    and "utf8_decode (percent_decode bytes) = Some d"
    and "domain_to_ascii env d = Inr bs"
    and "utf8_decode bs = Some a"
    and "set (lower a) \<inter> FORBIDDEN_HOST_CODE_POINTS = {}"
    and "\<forall>s q. IPv4Address env s = Some q \<longrightarrow> four_decimal_parts s"
  shows "parse_host env host False =
           Inr (case IPv4Address env host of Some q \<Rightarrow> q | None \<Rightarrow> lower a)
       \<and> (\<not> four_decimal_parts host \<longrightarrow> parse_host env host False = Inr (lower a))"
proof -
  have r: "parse_host env host False =
           Inr (case IPv4Address env host of Some q \<Rightarrow> q | None \<Rightarrow> lower a)"
    using assms(1-6) by (simp add: parse_host_def Let_def split: option.splits)
  have "IPv4Address env host = None" if "\<not> four_decimal_parts host"
    using that assms(7) by (cases "IPv4Address env host") auto
  with r show ?thesis by simp
qed

text \<open>
  Claim C4, witness: the sample environment's IPv4 parser accepts only the dotted decimal
  shape; the short form \<open>192.168.1\<close> has three parts and comes back as a domain, and
  \<open>127.0.0.1\<close> has the shape and comes back as the dotted quad.
\<close>

theorem ipv4_recognition_witness:
  "\<not> four_decimal_parts (cps ''192.168.1'')
   \<and> parse_host sample_env (cps ''192.168.1'') False = Inr (cps ''192.168.1'')
   \<and> four_decimal_parts (cps ''127.0.0.1'')
   \<and> parse_host sample_env (cps ''127.0.0.1'') False = Inr (cps ''127.0.0.1'')"
proof -
  have lib: "\<forall>s q. IPv4Address sample_env s = Some q \<longrightarrow> four_decimal_parts s"
    by (simp add: sample_env_def py_IPv4Address_shape)
  have n: "\<not> four_decimal_parts (cps ''192.168.1'')"
    by (simp add: four_decimal_parts_def cps_def)
  have a: "\<not> startswith (cps ''192.168.1'') (cps ''['')"
    by (simp add: util_defs)
  have b: "utf8_encode_str (cps ''192.168.1'') = Some (cps ''192.168.1'')"
    by (simp add: util_defs)
  have c: "utf8_decode (percent_decode (cps ''192.168.1'')) = Some (cps ''192.168.1'')"
    by (simp add: util_defs)
  have d: "domain_to_ascii sample_env (cps ''192.168.1'') = Inr (cps ''192.168.1'')"
    by (simp add: domain_to_ascii_def sample_env_def util_defs)
  have e: "utf8_decode (cps ''192.168.1'') = Some (cps ''192.168.1'')"
    by (simp add: util_defs)
  have f: "set (lower (cps ''192.168.1'')) \<inter> FORBIDDEN_HOST_CODE_POINTS = {}"
    by (simp add: util_defs FORBIDDEN_HOST_CODE_POINTS_def)
  have l: "lower (cps ''192.168.1'') = cps ''192.168.1''"
    by (simp add: util_defs)
  from ipv4_recognition [OF a b c d e f lib] n
  have "parse_host sample_env (cps ''192.168.1'') False = Inr (lower (cps ''192.168.1''))"
    by blast
  with l have p1: "parse_host sample_env (cps ''192.168.1'') False = Inr (cps ''192.168.1'')"
    by simp
  have m: "four_decimal_parts (cps ''127.0.0.1'')"
    by (simp add: four_decimal_parts_def cps_def ASCII_DIGITS_def)
  have a': "\<not> startswith (cps ''127.0.0.1'') (cps ''['')"
    by (simp add: util_defs)
  have b': "utf8_encode_str (cps ''127.0.0.1'') = Some (cps ''127.0.0.1'')"
    by (simp add: util_defs)
  have c': "utf8_decode (percent_decode (cps ''127.0.0.1'')) = Some (cps ''127.0.0.1'')"
    by (simp add: util_defs)
  have d': "domain_to_ascii sample_env (cps ''127.0.0.1'') = Inr (cps ''127.0.0.1'')"
    by (simp add: domain_to_ascii_def sample_env_def util_defs)
  have e': "utf8_decode (cps ''127.0.0.1'') = Some (cps ''127.0.0.1'')"
    by (simp add: util_defs)
  have f': "set (lower (cps ''127.0.0.1'')) \<inter> FORBIDDEN_HOST_CODE_POINTS = {}"
    by (simp add: util_defs FORBIDDEN_HOST_CODE_POINTS_def)
  have g': "IPv4Address sample_env (cps ''127.0.0.1'') = Some (cps ''127.0.0.1'')"
    by (simp add: sample_env_def py_IPv4Address_def parse_octet_def py_int_def set_defs util_defs)
  from ipv4_recognition [OF a' b' c' d' e' f' lib] g'
  have p2: "parse_host sample_env (cps ''127.0.0.1'') False = Inr (cps ''127.0.0.1'')"
    by simp
  from n p1 m p2 show ?thesis by simp
qed

text \<open>
  Claim C4, counterexample: \<open>0x7f.1\<close> has a hexadecimal part and two parts only. The
  library's IPv4 parser rejects it, and \<open>parse_host\<close> returns it as a domain, not as
  \<open>127.0.0.1\<close>.
\<close>

theorem hex_ipv4_is_domain_counterexample:
  "parse_host sample_env (cps ''0x7f.1'') False = Inr (cps ''0x7f.1'')"
  by (simp add: parse_host_def sample_env_def py_IPv4Address_def domain_to_ascii_def
      parse_octet_def py_int_def is_cont_def set_defs util_defs Let_def)

subsection \<open>The query state under a state override\<close>

text \<open>
  Claim C6 at its failing input. A fresh parser on a fresh URL record (whose query is
  \<open>None\<close>), started in the query state by a state override on the input \<open>x\<close>: the handler
  appends to the query without setting it first, and the call ends with a TypeError.
\<close>

theorem query_state_override_crashes:
  "parse env (UrlParser_init Url_init None ''utf-8'') (cps ''x'') None (Some QUERY)
     = Some (Inl TypeError)"
  by (simp add: handler_defs set_defs util_defs driver_defs main_loop.simps eof_loop.simps Let_def)


subsection \<open>Two runs of the whole parser\<close>

text \<open>
  Claim C2 at its input. Parsing \<open>file:///C|/WINDOWS/\<close> with no base returns a URL with the
  scheme \<open>file\<close>, no host at all (\<open>None\<close>, not the empty string) and the path segments
  \<open>C|\<close>, \<open>WINDOWS\<close> and the empty one; its serialisation is \<open>file:///C|/WINDOWS/\<close>. The file
  state compares the code point \<open>/\<close> with the string \<open>//\<close>, so the slashes reach the path
  state, not the file slash state, and the drive letter is no longer the first segment
  when it is collected.
\<close>

theorem file_drive_letter_parse:
  "map_option (map_sum id (\<lambda>p. (url p, href (url p))))
     (parse_url env (cps ''file:///C|/WINDOWS/'') None None) =
   Some (Inr (\<lparr>scheme = Some (cps ''file''), hostname = None, port = None, username = None,
                password = None, query = None, fragment = None,
                path_list = [cps ''C|'', cps ''WINDOWS'', []], cannot_be_base_url = False\<rparr>,
              Some (cps ''file:///C|/WINDOWS/'')))"
  by (simp add: handler_defs set_defs util_defs driver_defs main_loop.simps eof_loop.simps
      href_def path_def fmt_def Let_def)

text \<open>
  Claim C1 at a failing input. Parsing \<open>a:/.//b\<close> returns a URL with no host and the path
  segments empty and \<open>b\<close>, which serialises to \<open>a://b\<close>; parsing \<open>a://b\<close> returns a URL with
  the host \<open>b\<close> and an empty path, a different record.
\<close>

theorem serialisation_not_idempotent:
  "map_option (map_sum id (\<lambda>p. (url p, href (url p))))
     (parse_url env (cps ''a:/.//b'') None None) =
   Some (Inr (\<lparr>scheme = Some (cps ''a''), hostname = None, port = None, username = None,
                password = None, query = None, fragment = None,
                path_list = [[], cps ''b''], cannot_be_base_url = False\<rparr>,
              Some (cps ''a://b'')))
   \<and> map_option (map_sum id url) (parse_url env (cps ''a://b'') None None) =
   Some (Inr \<lparr>scheme = Some (cps ''a''), hostname = Some (cps ''b''), port = None,
               username = None, password = None, query = None, fragment = None,
               path_list = [], cannot_be_base_url = False\<rparr>)"
  by (simp add: handler_defs set_defs util_defs driver_defs main_loop.simps eof_loop.simps
      href_def path_def fmt_def parse_host_def Let_def)

subsection \<open>The driver always comes to an end\<close>

lemma on_path_eq:
  "on_path p c remaining =
     (if c = [] \<or> c = cps ''/'' \<or> (c = [0x5C] \<and> in_SPECIAL_SCHEMES (scheme (url p)))
         \<or> (state_override p = None \<and> (c = cps ''?'' \<or> c = cps ''#'')) then
        (if c = cps ''?'' then
           Continue ((path_end p c)\<lparr>url := (url (path_end p c))\<lparr>query := Some []\<rparr>,
                                     state := QUERY\<rparr>)
         else if c = cps ''#'' then
           Continue ((path_end p c)\<lparr>url := (url (path_end p c))\<lparr>fragment := Some []\<rparr>,
                                     state := FRAGMENT\<rparr>)
         else Continue (path_end p c))
      else
        (case c of
           [x] \<Rightarrow>
             (case percent_encode x PATH_PERCENT_ENCODE of
                None \<Rightarrow> Raise UnicodeEncodeError
              | Some e \<Rightarrow>
                  Continue
                    ((validation_error_if (c = cps ''%'' \<and> \<not> TWO_ASCII_HEX remaining)
                        (validation_error_if (c \<noteq> cps ''%'' \<and> \<not> is_url_codepoint x) p))
                       \<lparr>buffer :=
                          buffer (validation_error_if (c = cps ''%'' \<and> \<not> TWO_ASCII_HEX remaining)
                            (validation_error_if (c \<noteq> cps ''%'' \<and> \<not> is_url_codepoint x) p))
                          @ e\<rparr>))
         | _ \<Rightarrow> Raise TypeError))"
  unfolding on_path_def path_end_def path_segment_def path_drive_letter_def path_pop_empty_def
    Let_def
  by (rule refl)

lemma continues_simps [simp]:
  "continues I (Continue q) = I q"
  "continues I (UrlParserReturn q) = True"
  "continues I (Raise e) = True"
  by (simp_all add: continues_def)

lemma validation_error_if_sel [simp]:
  "url (validation_error_if b p) = url p"
  "base (validation_error_if b p) = base p"
  "encoding (validation_error_if b p) = encoding p"
  "state_override (validation_error_if b p) = state_override p"
  "state (validation_error_if b p) = state p"
  "pointer (validation_error_if b p) = pointer p"
  "buffer (validation_error_if b p) = buffer p"
  "at_flag (validation_error_if b p) = at_flag p"
  "square_brace_flag (validation_error_if b p) = square_brace_flag p"
  "password_token_seen_flag (validation_error_if b p) = password_token_seen_flag p"
  "validation_error (validation_error_if b p) = (b \<or> validation_error p)"
  by (simp_all add: validation_error_if_def)

lemma query_encoding_sel [simp]:
  "url (query_encoding p) = url p"
  "base (query_encoding p) = base p"
  "state_override (query_encoding p) = state_override p"
  "state (query_encoding p) = state p"
  "pointer (query_encoding p) = pointer p"
  "buffer (query_encoding p) = buffer p"
  "at_flag (query_encoding p) = at_flag p"
  "square_brace_flag (query_encoding p) = square_brace_flag p"
  "password_token_seen_flag (query_encoding p) = password_token_seen_flag p"
  "validation_error (query_encoding p) = validation_error p"
  by (simp_all add: query_encoding_def)

lemma shorten_url_path_sel [simp]:
  "base (shorten_url_path p) = base p"
  "encoding (shorten_url_path p) = encoding p"
  "state_override (shorten_url_path p) = state_override p"
  "state (shorten_url_path p) = state p"
  "pointer (shorten_url_path p) = pointer p"
  "buffer (shorten_url_path p) = buffer p"
  "at_flag (shorten_url_path p) = at_flag p"
  "square_brace_flag (shorten_url_path p) = square_brace_flag p"
  "password_token_seen_flag (shorten_url_path p) = password_token_seen_flag p"
  "validation_error (shorten_url_path p) = validation_error p"
  by (simp_all add: shorten_url_path_def Let_def)

lemma path_drive_letter_sel [simp]:
  "base (path_drive_letter p) = base p"
  "encoding (path_drive_letter p) = encoding p"
  "state_override (path_drive_letter p) = state_override p"
  "state (path_drive_letter p) = state p"
  "pointer (path_drive_letter p) = pointer p"
  "at_flag (path_drive_letter p) = at_flag p"
  "square_brace_flag (path_drive_letter p) = square_brace_flag p"
  "password_token_seen_flag (path_drive_letter p) = password_token_seen_flag p"
  by (simp_all add: path_drive_letter_def Let_def)

lemma path_segment_sel [simp]:
  "base (path_segment p s) = base p"
  "encoding (path_segment p s) = encoding p"
  "state_override (path_segment p s) = state_override p"
  "state (path_segment p s) = state p"
  "pointer (path_segment p s) = pointer p"
  "at_flag (path_segment p s) = at_flag p"
  "square_brace_flag (path_segment p s) = square_brace_flag p"
  "password_token_seen_flag (path_segment p s) = password_token_seen_flag p"
  by (simp_all add: path_segment_def Let_def)

lemma path_pop_empty_sel [simp]:
  "base (path_pop_empty p c) = base p"
  "encoding (path_pop_empty p c) = encoding p"
  "state_override (path_pop_empty p c) = state_override p"
  "state (path_pop_empty p c) = state p"
  "pointer (path_pop_empty p c) = pointer p"
  "buffer (path_pop_empty p c) = buffer p"
  "at_flag (path_pop_empty p c) = at_flag p"
  "square_brace_flag (path_pop_empty p c) = square_brace_flag p"
  "password_token_seen_flag (path_pop_empty p c) = password_token_seen_flag p"
  by (simp_all add: path_pop_empty_def split: prod.split)

lemma path_end_sel [simp]:
  "base (path_end p c) = base p"
  "encoding (path_end p c) = encoding p"
  "state_override (path_end p c) = state_override p"
  "state (path_end p c) = state p"
  "pointer (path_end p c) = pointer p"
  "buffer (path_end p c) = []"
  "at_flag (path_end p c) = at_flag p"
  "square_brace_flag (path_end p c) = square_brace_flag p"
  "password_token_seen_flag (path_end p c) = password_token_seen_flag p"
  by (simp_all add: path_end_def)

























lemma nil_not_char [simp]:
  "[] \<noteq> cps ''/''" "[] \<noteq> cps ''?''" "[] \<noteq> cps ''#''" "[] \<noteq> cps '':''" "[] \<noteq> cps ''@''"
  "[] \<noteq> cps ''[''" "[] \<noteq> cps '']''" "[] \<noteq> cps ''%''" "\<not> char_in [] S"
  "[] \<in> PATH_DELIMITERS" "[] \<in> AUTHORITY_DELIMITERS"
  by (simp_all add: cps_def char_in_def PATH_DELIMITERS_def AUTHORITY_DELIMITERS_def)

































subsection \<open>Properties that every handler call keeps\<close>

lemma holds_simps [simp]:
  "holds I (Continue q) = I q"
  "holds I (UrlParserReturn q) = I q"
  "holds I (Raise e) = True"
  by (simp_all add: holds_def)

lemma advance_holds:
  assumes "\<And>p c rem. I p \<Longrightarrow> holds I (state_handler env p c rem)"
    and "\<And>p k. I p \<Longrightarrow> I (p\<lparr>pointer := k\<rparr>)"
    and "I p"
  shows "holds I (handle_and_advance env p c rem)"
  using assms(1) [OF assms(3), of c rem] assms(2)
  by (auto simp: handle_and_advance_def split: outcome.splits)

lemma eof_loop_holds:
  assumes "eof_loop env E p = Some r"
    and "\<And>env p c rem. I p \<Longrightarrow> holds I (state_handler env p c rem)"
    and "\<And>p k. I p \<Longrightarrow> I (p\<lparr>pointer := k\<rparr>)"
  shows "I p \<longrightarrow> holds I r"
  using assms(1)
proof (induct rule: eof_loop.raw_induct [rotated 1, consumes 1])
  case (1 eof_loop' env E p r)
  show ?case
  proof
    assume i: "I p"
    from advance_holds [of I env p "[]" "[]", OF assms(2) assms(3) i]
    have h: "holds I (handle_and_advance env p [] [])" .
    show "holds I r"
    proof (cases "pointer p = E")
      case False
      with 1(2) i show ?thesis by auto
    next
      case True
      show ?thesis
      proof (cases "handle_and_advance env p [] []")
        case (Continue p1)
        with 1(2) True have e: "eof_loop' env E p1 = Some r" by simp
        from h Continue have "I p1" by simp
        with 1(1) [OF e] show ?thesis by simp
      next
        case (UrlParserReturn q)
        with 1(2) True h show ?thesis by auto
      next
        case (Raise e)
        with 1(2) True show ?thesis by auto
      qed
    qed
  qed
qed

lemma char_step_holds:
  assumes "\<And>p c rem. I p \<Longrightarrow> holds I (state_handler env p c rem)"
    and "\<And>p k. I p \<Longrightarrow> I (p\<lparr>pointer := k\<rparr>)"
    and "I p"
  shows "holds I (char_step env data p)"
  using advance_holds [of I env p, OF assms] assms(3)
  by (simp add: char_step_def split: option.split)

lemma main_loop_holds:
  assumes "main_loop env data p = Some r"
    and "\<And>env p c rem. I p \<Longrightarrow> holds I (state_handler env p c rem)"
    and "\<And>p k. I p \<Longrightarrow> I (p\<lparr>pointer := k\<rparr>)"
  shows "I p \<longrightarrow> holds I r"
  using assms(1)
proof (induct rule: main_loop.raw_induct [rotated 1, consumes 1])
  case (1 main_loop' env data p r)
  show ?case
  proof
    assume i: "I p"
    from char_step_holds [of I env p data, OF assms(2) assms(3) i]
    have h: "holds I (char_step env data p)" .
    show "holds I r"
    proof (cases "pointer p < int (length data) \<or> (int (length data) = 0 \<and> pointer p = 0)")
      case False
      with 1(2) i show ?thesis by auto
    next
      case True
      show ?thesis
      proof (cases "char_step env data p")
        case (Continue p1)
        with h have i1: "I p1" by simp
        show ?thesis
        proof (cases "eof_loop env (int (length data)) p1")
          case None
          with 1(2) True Continue show ?thesis by simp
        next
          case (Some r1)
          from eof_loop_holds [OF Some, of I, OF assms(2) assms(3)] i1
          have h1: "holds I r1" by simp
          show ?thesis
          proof (cases r1)
            case c2: (Continue p2)
            with 1(2) True Continue Some have e: "main_loop' env data p2 = Some r" by simp
            from h1 c2 have "I p2" by simp
            with 1(1) [OF e] show ?thesis by simp
          next
            case (UrlParserReturn q)
            with 1(2) True Continue Some h1 show ?thesis by auto
          next
            case (Raise e)
            with 1(2) True Continue Some show ?thesis by auto
          qed
        qed
      next
        case (UrlParserReturn q)
        with 1(2) True h show ?thesis by auto
      next
        case (Raise e)
        with 1(2) True show ?thesis by auto
      qed
    qed
  qed
qed

subsection \<open>The drive letter of a file URL\<close>

lemma NORMALIZED_WINDOWS_DRIVE_LETTER_not_empty:
  "NORMALIZED_WINDOWS_DRIVE_LETTER d \<Longrightarrow> d \<noteq> []"
  by (auto simp: NORMALIZED_WINDOWS_DRIVE_LETTER_def)

lemma shorten_url_path_has_drive:
  "has_drive d (url p) \<Longrightarrow> has_drive d (url (shorten_url_path p))"
  by (cases "path_list (url p)")
     (auto simp: has_drive_def shorten_url_path_def Let_def)

lemma path_drive_letter_has_drive:
  "has_drive d (url p) \<Longrightarrow> url (path_drive_letter p) = url p"
  by (simp add: has_drive_def path_drive_letter_def)

lemma has_drive_append:
  "has_drive d u \<Longrightarrow> has_drive d (u\<lparr>path_list := path_list u @ [s]\<rparr>)"
  by (simp add: has_drive_def)

lemma path_segment_has_drive:
  "has_drive d (url p) \<Longrightarrow> has_drive d (url (path_segment p s))"
  by (simp add: path_segment_def Let_def path_drive_letter_has_drive has_drive_append
      shorten_url_path_has_drive)

lemma pop_empty_segments_first:
  "xs \<noteq> [] \<Longrightarrow> hd xs \<noteq> [] \<Longrightarrow> fst (pop_empty_segments xs ve) = xs"
  by (cases xs; cases "tl xs") auto

lemma path_pop_empty_has_drive:
  assumes "has_drive d (url p)"
  shows "has_drive d (url (path_pop_empty p c))"
proof -
  from assms have "path_list (url p) \<noteq> []" and "hd (path_list (url p)) \<noteq> []"
    by (auto simp: has_drive_def dest: NORMALIZED_WINDOWS_DRIVE_LETTER_not_empty)
  from pop_empty_segments_first [OF this, of "validation_error p"] assms show ?thesis
    by (auto simp: path_pop_empty_def has_drive_def split: prod.split)
qed

lemma path_end_has_drive:
  "has_drive d (url p) \<Longrightarrow> has_drive d (url (path_end p c))"
  unfolding path_end_def
  by (rule path_pop_empty_has_drive) (simp add: path_segment_has_drive)

lemma has_drive_query_fragment [simp]:
  "has_drive d (u\<lparr>query := x\<rparr>) = has_drive d u"
  "has_drive d (u\<lparr>fragment := y\<rparr>) = has_drive d u"
  "has_drive d (u\<lparr>hostname := z\<rparr>) = has_drive d u"
  by (simp_all add: has_drive_def)

lemma query_bytes_has_drive:
  "query_bytes sp bs u = Inr u' \<Longrightarrow> has_drive d u \<Longrightarrow> has_drive d u'"
  by (induction sp bs u rule: query_bytes.induct) (auto split: option.splits)

lemma drive_kept_on_15: "state p = FILE_SLASH \<Longrightarrow> drive_kept d p \<Longrightarrow> holds (drive_kept d) (on_file_slash p c rem)"
  by (simp add: on_file_slash_def drive_kept_def in_path_states_def Let_def has_drive_append
      split: option.split)

lemma drive_kept_on_16: "state p = FILE_HOST \<Longrightarrow> drive_kept d p \<Longrightarrow> holds (drive_kept d) (on_file_host env p c)"
  by (simp add: on_file_host_def drive_kept_def in_path_states_def Let_def split: sum.split)

lemma drive_kept_on_17: "state p = PATH_START \<Longrightarrow> drive_kept d p \<Longrightarrow> holds (drive_kept d) (on_path_start p c)"
  by (simp add: on_path_start_def drive_kept_def in_path_states_def Let_def)

lemma drive_kept_on_18: "state p = PATH \<Longrightarrow> drive_kept d p \<Longrightarrow> holds (drive_kept d) (on_path p c rem)"
  by (simp add: on_path_eq drive_kept_def in_path_states_def path_end_has_drive
      split: option.split list.split)

lemma drive_kept_on_20: "state p = QUERY \<Longrightarrow> drive_kept d p \<Longrightarrow> holds (drive_kept d) (on_query env p c rem)"
  by (auto simp add: on_query_def drive_kept_def in_path_states_def Let_def
      split: option.split list.split sum.split dest: query_bytes_has_drive)

lemma drive_kept_on_21: "state p = FRAGMENT \<Longrightarrow> drive_kept d p \<Longrightarrow> holds (drive_kept d) (on_fragment p c rem)"
  by (simp add: on_fragment_def drive_kept_def in_path_states_def Let_def
      split: option.split list.split)

lemma handler_drive_kept:
  "drive_kept d p \<Longrightarrow> holds (drive_kept d) (state_handler env p c rem)"
  by (cases "state p")
     (simp_all add: state_handler_def drive_kept_on_15 drive_kept_on_16 drive_kept_on_17 drive_kept_on_18 drive_kept_on_20 drive_kept_on_21,
      simp_all add: drive_kept_def in_path_states_def)

lemma drive_kept_pointer: "drive_kept d p \<Longrightarrow> drive_kept d (p\<lparr>pointer := k\<rparr>)"
  by (simp add: drive_kept_def in_path_states_def)

text \<open>
  Claim C8. For a file URL whose first path segment is a normalized Windows drive letter,
  path shortening keeps that segment as the first one, however often it is applied; and
  from the file slash state on, whatever the rest of the input is (double-dot segments
  and their percent-encoded forms included), every parser that the driver hands back, by
  running to the end of the input or by \<open>_UrlParserReturn\<close>, still has that drive letter
  as the first segment of the path of a file URL.
\<close>

theorem drive_letter_preserved:
  assumes "has_drive d (url p)"
  shows "has_drive d (url ((shorten_url_path ^^ n) p))
       \<and> (in_path_states p \<longrightarrow> main_loop env data p = Some r \<longrightarrow>
            holds (\<lambda>q. has_drive d (url q)) r)"
proof
  show "has_drive d (url ((shorten_url_path ^^ n) p))"
    using assms by (induction n) (simp_all add: shorten_url_path_has_drive)
  show "in_path_states p \<longrightarrow> main_loop env data p = Some r \<longrightarrow>
          holds (\<lambda>q. has_drive d (url q)) r"
  proof (intro impI)
    assume s: "in_path_states p" and m: "main_loop env data p = Some r"
    from s assms have "drive_kept d p" by (simp add: drive_kept_def)
    with main_loop_holds [OF m, of "drive_kept d"] handler_drive_kept drive_kept_pointer
    have "holds (drive_kept d) r" by blast
    then show "holds (\<lambda>q. has_drive d (url q)) r"
      by (cases r) (simp_all add: drive_kept_def)
  qed
qed

text \<open>
  Claim C8, witness: a file URL with the path \<open>C:\<close>, parser in the path state, rest of
  the input \<open>..\<close>. Shortening three times keeps \<open>C:\<close>, and the driver hands back the path
  \<open>C:\<close> followed by an empty segment.
\<close>

theorem drive_letter_preserved_witness:
  "has_drive (cps ''C:'')
     (url ((UrlParser_init (Url_init\<lparr>scheme := Some (cps ''file''), path_list := [cps ''C:'']\<rparr>)
              None ''utf-8'')\<lparr>state := PATH\<rparr>))
   \<and> has_drive (cps ''C:'')
     (url ((shorten_url_path ^^ 3)
        ((UrlParser_init (Url_init\<lparr>scheme := Some (cps ''file''), path_list := [cps ''C:'']\<rparr>)
              None ''utf-8'')\<lparr>state := PATH\<rparr>)))
   \<and> (\<exists>q. main_loop sample_env (cps ''..'')
             ((UrlParser_init (Url_init\<lparr>scheme := Some (cps ''file''), path_list := [cps ''C:'']\<rparr>)
                None ''utf-8'')\<lparr>state := PATH\<rparr>) = Some (Continue q)
          \<and> path_list (url q) = [cps ''C:'', []]
          \<and> has_drive (cps ''C:'') (url q))"
proof -
  let ?p = "(UrlParser_init (Url_init\<lparr>scheme := Some (cps ''file''), path_list := [cps ''C:'']\<rparr>)
              None ''utf-8'')\<lparr>state := PATH\<rparr>"
  have d: "has_drive (cps ''C:'') (url ?p)"
    by (simp add: has_drive_def UrlParser_init_def Url_init_def util_defs ASCII_ALPHA_def)
  have s: "in_path_states ?p"
    by (simp add: in_path_states_def UrlParser_init_def)
  have "\<exists>q. main_loop sample_env (cps ''..'') ?p = Some (Continue q)
          \<and> path_list (url q) = [cps ''C:'', []]"
    by (simp add: handler_defs set_defs util_defs driver_defs main_loop.simps eof_loop.simps
        Let_def)
  then obtain q where m: "main_loop sample_env (cps ''..'') ?p = Some (Continue q)"
    and pl: "path_list (url q) = [cps ''C:'', []]" by blast
  from drive_letter_preserved [OF d, of 3 sample_env "cps ''..''" "Continue q"] s m
  have "has_drive (cps ''C:'') (url ((shorten_url_path ^^ 3) ?p))"
    and "has_drive (cps ''C:'') (url q)" by simp_all
  with d m pl show ?thesis by blast
qed

end
